theory Spec2Isabelle
  imports Complex_Main "HOL-Library.Word" "HOL-Library.Stream"
begin

unbundle bit_operations_syntax

section \<open>The LC709203F fuel gauge driver\<close>

text \<open>
  A shallow embedding of \<^verbatim>\<open>adafruit_lc709203f.py\<close>.  Python integers are \<open>int\<close>,
  the elements of the \<^verbatim>\<open>bytearray\<close> scratch buffer are \<open>8 word\<close>, exceptions are
  values of \<open>exn\<close> on the left of a sum, and the I2C bus is an explicit world: every
  transfer consumes the next reply of the bus and is appended to a log.
\<close>

subsection \<open>Module constants\<close>

type_synonym byte = "8 word"

definition LC709203F_I2CADDR_DEFAULT :: int where
  "LC709203F_I2CADDR_DEFAULT = 0x0B"

definition LC709203F_CMD_ICVERSION :: byte where
  "LC709203F_CMD_ICVERSION = 0x11"

definition LC709203F_CMD_BATTPROF :: byte where
  "LC709203F_CMD_BATTPROF = 0x12"

definition LC709203F_CMD_POWERMODE :: byte where
  "LC709203F_CMD_POWERMODE = 0x15"

definition LC709203F_CMD_APA :: byte where
  "LC709203F_CMD_APA = 0x0B"

definition LC709203F_CMD_INITRSOC :: byte where
  "LC709203F_CMD_INITRSOC = 0x07"

definition LC709203F_CMD_CELLVOLTAGE :: byte where
  "LC709203F_CMD_CELLVOLTAGE = 0x09"

definition LC709203F_CMD_CELLITE :: byte where
  "LC709203F_CMD_CELLITE = 0x0F"

definition LC709203F_CMD_CELLTEMPERATURE :: byte where
  "LC709203F_CMD_CELLTEMPERATURE = 0x08"

definition LC709203F_CMD_THERMISTORB :: byte where
  "LC709203F_CMD_THERMISTORB = 0x06"

definition LC709203F_CMD_STATUSBIT :: byte where
  "LC709203F_CMD_STATUSBIT = 0x16"

definition LC709203F_CMD_ALARMPERCENT :: byte where
  "LC709203F_CMD_ALARMPERCENT = 0x13"

definition LC709203F_CMD_ALARMVOLTAGE :: byte where
  "LC709203F_CMD_ALARMVOLTAGE = 0x14"

definition LC709203F_I2C_RETRY_COUNT :: nat where
  "LC709203F_I2C_RETRY_COUNT = 10"

subsection \<open>The CV helper and its two value sets\<close>

text \<open>
  \<^verbatim>\<open>CV.add_values\<close> starts from two empty dictionaries and, for each tuple,
  sets the attribute \<open>name\<close> and the entries \<open>string[value]\<close> and \<open>lsb[value]\<close>.
  \<^verbatim>\<open>CV.is_valid\<close> is membership in the keys of \<open>string\<close>.
\<close>

record cv =
  attrs :: "string \<rightharpoonup> int"
  string_tab :: "int \<rightharpoonup> string"
  lsb_tab :: "int \<rightharpoonup> int option"

definition add_value :: "string \<times> int \<times> string \<times> int option \<Rightarrow> cv \<Rightarrow> cv" where
  "add_value value_tuple cls =
     (case value_tuple of (name, val, str, lsb) \<Rightarrow>
        cls\<lparr>attrs := (attrs cls)(name \<mapsto> val),
            string_tab := (string_tab cls)(val \<mapsto> str),
            lsb_tab := (lsb_tab cls)(val \<mapsto> lsb)\<rparr>)"

definition add_values :: "(string \<times> int \<times> string \<times> int option) list \<Rightarrow> cv" where
  "add_values value_tuples =
     fold add_value value_tuples
       \<lparr>attrs = Map.empty, string_tab = Map.empty, lsb_tab = Map.empty\<rparr>"

definition is_valid :: "cv \<Rightarrow> int \<Rightarrow> bool" where
  "is_valid cls val = (string_tab cls val \<noteq> None)"

definition PowerMode :: cv where
  "PowerMode = add_values
     [(''OPERATE'', 0x0001, ''Operate'', None),
      (''SLEEP'', 0x0002, ''Sleep'', None)]"

definition PackSize :: cv where
  "PackSize = add_values
     [(''MAH100'', 0x08, ''100 mAh'', Some 100),
      (''MAH200'', 0x0B, ''200 mAh'', Some 200),
      (''MAH400'', 0x0E, ''400 mAh'', Some 400),
      (''MAH500'', 0x10, ''500 mAh'', Some 500),
      (''MAH1000'', 0x19, ''1000 mAh'', Some 1000),
      (''MAH2000'', 0x2D, ''2000 mAh'', Some 2000),
      (''MAH2200'', 0x30, ''2200 mAh'', Some 2200),
      (''MAH3000'', 0x36, ''3000 mAh'', Some 3000)]"

definition PowerMode_OPERATE :: int where
  "PowerMode_OPERATE = the (attrs PowerMode ''OPERATE'')"

definition PackSize_MAH500 :: int where
  "PackSize_MAH500 = the (attrs PackSize ''MAH500'')"

subsection \<open>Exceptions, the bus and the driver object\<close>

datatype exn = OSError string | ValueError string | TypeError string

text \<open>
  What the world has seen: a probe of an address by the \<^verbatim>\<open>I2CDevice\<close>
  constructor, a \<^verbatim>\<open>time.sleep(0.1)\<close>, an \<^verbatim>\<open>i2c.write\<close> of some bytes, and an
  \<^verbatim>\<open>i2c.write_then_readinto\<close> that sends some bytes and reads a number of bytes.
\<close>

datatype event = Probe int | Sleep | Write int "byte list" | WriteThenRead int "byte list" nat

text \<open>
  The reply of the bus to one transfer: the transfer raises, or it completes.  For a
  read the four bytes are the ones clocked into \<^verbatim>\<open>buf[3:7]\<close>; a write ignores them.
\<close>

datatype reply = Nack exn | Ack byte byte byte byte

record world =
  probe_replies :: "exn option stream"
  bus_replies :: "reply stream"
  log :: "event list"

record lc709203f =
  i2c_device :: int
  buf :: "byte list"

definition write_then_readinto ::
  "int \<Rightarrow> byte list \<Rightarrow> world \<Rightarrow> (exn + byte list) \<times> world" where
  "write_then_readinto dev b w =
     (let w' = w\<lparr>bus_replies := stl (bus_replies w),
                 log := log w @ [WriteThenRead dev (take 1 (drop 1 b)) 4]\<rparr>
      in case shd (bus_replies w) of
           Nack e \<Rightarrow> (Inl e, w')
         | Ack d0 d1 d2 d3 \<Rightarrow> (Inr (b[3 := d0, 4 := d1, 5 := d2, 6 := d3]), w'))"

definition i2c_write :: "int \<Rightarrow> byte list \<Rightarrow> world \<Rightarrow> (exn + unit) \<times> world" where
  "i2c_write dev bytes w =
     (let w' = w\<lparr>bus_replies := stl (bus_replies w), log := log w @ [Write dev bytes]\<rparr>
      in case shd (bus_replies w) of
           Nack e \<Rightarrow> (Inl e, w')
         | Ack d0 d1 d2 d3 \<Rightarrow> (Inr (), w'))"

definition sleep :: "world \<Rightarrow> world" where
  "sleep w = w\<lparr>log := log w @ [Sleep]\<rparr>"

subsection \<open>The CRC\<close>

text \<open>The inner loop \<^verbatim>\<open>for _ in range(8)\<close> of \<^verbatim>\<open>_generate_crc\<close>.\<close>

fun crc_bits :: "nat \<Rightarrow> int \<Rightarrow> int" where
  "crc_bits 0 crc = crc"
| "crc_bits (Suc n) crc =
     crc_bits n
       ((if crc AND 0x80 \<noteq> 0 then push_bit 1 crc XOR 0x07 else push_bit 1 crc) AND 0xFF)"

definition generate_crc :: "byte list \<Rightarrow> int" where
  "generate_crc data = fold (\<lambda>byte crc. crc_bits 8 (crc XOR uint byte)) data 0x00"

subsection \<open>Reading and writing a word\<close>

text \<open>The body of the \<^verbatim>\<open>try\<close> of \<^verbatim>\<open>_read_word\<close>: one transfer and its check.\<close>

definition read_try :: "lc709203f \<Rightarrow> world \<Rightarrow> (exn + int) \<times> lc709203f \<times> world" where
  "read_try self w =
     (case write_then_readinto (i2c_device self) (buf self) w of
        (Inl e, w') \<Rightarrow> (Inl e, self, w')
      | (Inr b, w') \<Rightarrow>
          (let self' = self\<lparr>buf := b\<rparr>; crc8 = generate_crc (take 5 b)
           in if crc8 \<noteq> uint (b ! 5)
              then (Inl (OSError ''CRC failure on reading word''), self', w')
              else (Inr (push_bit 8 (uint (b ! 4)) OR uint (b ! 3)), self', w')))"

text \<open>
  The retry loop over \<^verbatim>\<open>range(LC709203F_I2C_RETRY_COUNT)\<close>.  Only \<^verbatim>\<open>OSError\<close> is
  caught; it is raised again when \<open>x\<close> is the last index.  Falling out of the loop
  returns \<^verbatim>\<open>None\<close>.
\<close>

fun read_retry ::
  "nat list \<Rightarrow> lc709203f \<Rightarrow> world \<Rightarrow> (exn + int option) \<times> lc709203f \<times> world" where
  "read_retry [] self w = (Inr None, self, w)"
| "read_retry (x # xs) self w =
     (case read_try self w of
        (Inr v, self', w') \<Rightarrow> (Inr (Some v), self', w')
      | (Inl e, self', w') \<Rightarrow>
          (case e of
             OSError m \<Rightarrow>
               if x = LC709203F_I2C_RETRY_COUNT - 1 then (Inl e, self', w')
               else read_retry xs self' w'
           | ValueError m \<Rightarrow> (Inl e, self', w')
           | TypeError m \<Rightarrow> (Inl e, self', w')))"

definition read_word ::
  "lc709203f \<Rightarrow> byte \<Rightarrow> world \<Rightarrow> (exn + int option) \<times> lc709203f \<times> world" where
  "read_word self command w =
     (let b0 = (buf self)[0 := word_of_int (LC709203F_I2CADDR_DEFAULT * 2)];
          b1 = b0[1 := command];
          b2 = b1[2 := (b1 ! 0) OR 0x1]
      in read_retry [0..<LC709203F_I2C_RETRY_COUNT] (self\<lparr>buf := b2\<rparr>) w)"

fun write_retry ::
  "nat list \<Rightarrow> lc709203f \<Rightarrow> world \<Rightarrow> (exn + unit) \<times> lc709203f \<times> world" where
  "write_retry [] self w = (Inr (), self, w)"
| "write_retry (x # xs) self w =
     (case i2c_write (i2c_device self) (take 4 (drop 1 (buf self))) w of
        (Inr u, w') \<Rightarrow> (Inr (), self, w')
      | (Inl e, w') \<Rightarrow>
          (case e of
             OSError m \<Rightarrow>
               if x = LC709203F_I2C_RETRY_COUNT - 1 then (Inl e, self, w')
               else write_retry xs self w'
           | ValueError m \<Rightarrow> (Inl e, self, w')
           | TypeError m \<Rightarrow> (Inl e, self, w')))"

definition write_word ::
  "lc709203f \<Rightarrow> byte \<Rightarrow> int \<Rightarrow> world \<Rightarrow> (exn + unit) \<times> lc709203f \<times> world" where
  "write_word self command data w =
     (let b0 = (buf self)[0 := word_of_int (LC709203F_I2CADDR_DEFAULT * 2)];
          b1 = b0[1 := command];
          b2 = b1[2 := word_of_int (data AND 0xFF)];
          b3 = b2[3 := word_of_int (drop_bit 8 data AND 0xFF)];
          b4 = b3[4 := word_of_int (generate_crc (take 4 b3))]
      in write_retry [0..<LC709203F_I2C_RETRY_COUNT] (self\<lparr>buf := b4\<rparr>) w)"

subsection \<open>The accessors\<close>

text \<open>
  Python's \<open>/\<close> yields a float; the model keeps the exact quotient as a rational,
  which the double of the code approximates (the raw word 2981 is 24.95 degrees here and
  24.950000000000045 there).  \<^verbatim>\<open>None / 1000\<close> is a \<^verbatim>\<open>TypeError\<close>.
\<close>

definition init_RSOC :: "lc709203f \<Rightarrow> world \<Rightarrow> (exn + unit) \<times> lc709203f \<times> world" where
  "init_RSOC self w = write_word self LC709203F_CMD_INITRSOC 0xAA55 w"

definition cell_voltage ::
  "lc709203f \<Rightarrow> world \<Rightarrow> (exn + rat option) \<times> lc709203f \<times> world" where
  "cell_voltage self w =
     (case read_word self LC709203F_CMD_CELLVOLTAGE w of
        (Inr None, self', w') \<Rightarrow>
          (Inl (TypeError ''unsupported operand type(s) for /''), self', w')
      | (Inr (Some v), self', w') \<Rightarrow> (Inr (Some (of_int v / 1000)), self', w')
      | (Inl e, self', w') \<Rightarrow>
          (case e of
             OSError m \<Rightarrow> (Inr None, self', w')
           | ValueError m \<Rightarrow> (Inl e, self', w')
           | TypeError m \<Rightarrow> (Inl e, self', w')))"

definition cell_percent ::
  "lc709203f \<Rightarrow> world \<Rightarrow> (exn + rat option) \<times> lc709203f \<times> world" where
  "cell_percent self w =
     (case read_word self LC709203F_CMD_CELLITE w of
        (Inr None, self', w') \<Rightarrow>
          (Inl (TypeError ''unsupported operand type(s) for /''), self', w')
      | (Inr (Some v), self', w') \<Rightarrow> (Inr (Some (of_int v / 10)), self', w')
      | (Inl e, self', w') \<Rightarrow>
          (case e of
             OSError m \<Rightarrow> (Inr None, self', w')
           | ValueError m \<Rightarrow> (Inl e, self', w')
           | TypeError m \<Rightarrow> (Inl e, self', w')))"

definition cell_temperature ::
  "lc709203f \<Rightarrow> world \<Rightarrow> (exn + rat option) \<times> lc709203f \<times> world" where
  "cell_temperature self w =
     (case read_word self LC709203F_CMD_CELLTEMPERATURE w of
        (Inr None, self', w') \<Rightarrow>
          (Inl (TypeError ''unsupported operand type(s) for /''), self', w')
      | (Inr (Some v), self', w') \<Rightarrow> (Inr (Some (of_int v / 10 - 27315 / 100)), self', w')
      | (Inl e, self', w') \<Rightarrow>
          (case e of
             OSError m \<Rightarrow> (Inr None, self', w')
           | ValueError m \<Rightarrow> (Inl e, self', w')
           | TypeError m \<Rightarrow> (Inl e, self', w')))"

definition ic_version ::
  "lc709203f \<Rightarrow> world \<Rightarrow> (exn + int option) \<times> lc709203f \<times> world" where
  "ic_version self w = read_word self LC709203F_CMD_ICVERSION w"

definition power_mode ::
  "lc709203f \<Rightarrow> world \<Rightarrow> (exn + int option) \<times> lc709203f \<times> world" where
  "power_mode self w = read_word self LC709203F_CMD_POWERMODE w"

definition set_power_mode ::
  "lc709203f \<Rightarrow> int \<Rightarrow> world \<Rightarrow> (exn + unit) \<times> lc709203f \<times> world" where
  "set_power_mode self mode w =
     (if \<not> is_valid PowerMode mode
      then (Inl (ValueError ''power_mode must be a PowerMode''), self, w)
      else write_word self LC709203F_CMD_POWERMODE mode w)"

definition battery_profile ::
  "lc709203f \<Rightarrow> world \<Rightarrow> (exn + int option) \<times> lc709203f \<times> world" where
  "battery_profile self w = read_word self LC709203F_CMD_BATTPROF w"

definition set_battery_profile ::
  "lc709203f \<Rightarrow> int \<Rightarrow> world \<Rightarrow> (exn + unit) \<times> lc709203f \<times> world" where
  "set_battery_profile self mode w =
     (if \<not> List.member [0, 1] mode
      then (Inl (ValueError ''battery_profile must be 0 or 1''), self, w)
      else write_word self LC709203F_CMD_BATTPROF mode w)"

definition pack_size ::
  "lc709203f \<Rightarrow> world \<Rightarrow> (exn + int option) \<times> lc709203f \<times> world" where
  "pack_size self w = read_word self LC709203F_CMD_APA w"

definition set_pack_size ::
  "lc709203f \<Rightarrow> int \<Rightarrow> world \<Rightarrow> (exn + unit) \<times> lc709203f \<times> world" where
  "set_pack_size self sz w =
     (if \<not> is_valid PackSize sz
      then (Inl (ValueError ''pack_size must be a PackSize''), self, w)
      else write_word self LC709203F_CMD_APA sz w)"

definition thermistor_bconstant ::
  "lc709203f \<Rightarrow> world \<Rightarrow> (exn + int option) \<times> lc709203f \<times> world" where
  "thermistor_bconstant self w = read_word self LC709203F_CMD_THERMISTORB w"

definition set_thermistor_bconstant ::
  "lc709203f \<Rightarrow> int \<Rightarrow> world \<Rightarrow> (exn + unit) \<times> lc709203f \<times> world" where
  "set_thermistor_bconstant self bconstant w =
     write_word self LC709203F_CMD_THERMISTORB bconstant w"

definition thermistor_enable ::
  "lc709203f \<Rightarrow> world \<Rightarrow> (exn + int option) \<times> lc709203f \<times> world" where
  "thermistor_enable self w = read_word self LC709203F_CMD_STATUSBIT w"

text \<open>
  The argument of the \<^verbatim>\<open>thermistor_enable\<close> setter is any Python object; the setter
  asks \<^verbatim>\<open>isinstance(status, bool)\<close>.  A \<^verbatim>\<open>bool\<close> behaves as 0 or 1 under \<open>&\<close>
  and \<open>>>\<close>.
\<close>

datatype pyobj = PyBool bool | PyInt int | PyNone

definition set_thermistor_enable ::
  "lc709203f \<Rightarrow> pyobj \<Rightarrow> world \<Rightarrow> (exn + unit) \<times> lc709203f \<times> world" where
  "set_thermistor_enable self status w =
     (case status of
        PyBool b \<Rightarrow> write_word self LC709203F_CMD_STATUSBIT (if b then 1 else 0) w
      | PyInt n \<Rightarrow> (Inl (ValueError ''thermistor_enable must be True or False''), self, w)
      | PyNone \<Rightarrow> (Inl (ValueError ''thermistor_enable must be True or False''), self, w))"

definition low_voltage_alarm_percent ::
  "lc709203f \<Rightarrow> world \<Rightarrow> (exn + int option) \<times> lc709203f \<times> world" where
  "low_voltage_alarm_percent self w = read_word self LC709203F_CMD_ALARMPERCENT w"

definition set_low_voltage_alarm_percent ::
  "lc709203f \<Rightarrow> int \<Rightarrow> world \<Rightarrow> (exn + unit) \<times> lc709203f \<times> world" where
  "set_low_voltage_alarm_percent self percent w =
     (if \<not> (0 \<le> percent \<and> percent \<le> 100)
      then (Inl (ValueError ''alarm voltage percent must be 0-100''), self, w)
      else write_word self LC709203F_CMD_ALARMPERCENT percent w)"

definition low_voltage_alarm ::
  "lc709203f \<Rightarrow> world \<Rightarrow> (exn + int option) \<times> lc709203f \<times> world" where
  "low_voltage_alarm self w = read_word self LC709203F_CMD_ALARMVOLTAGE w"

definition set_low_voltage_alarm ::
  "lc709203f \<Rightarrow> int \<Rightarrow> world \<Rightarrow> (exn + unit) \<times> lc709203f \<times> world" where
  "set_low_voltage_alarm self voltage w =
     write_word self LC709203F_CMD_ALARMVOLTAGE voltage w"

text \<open>
  The \<^verbatim>\<open>cell_temperature\<close> setter.  \<^verbatim>\<open>if self.thermistor_enable\<close> reads the status
  register and tests the truth of the word read (\<^verbatim>\<open>None\<close> and 0 are false).
  \<^verbatim>\<open>int(...)\<close> truncates towards zero.  The temperature is a float in Python; the
  model computes \<open>value + 273.15\<close> on exact rationals.  The two agree unless the
  exact sum is a whole number that the double addition misses from below: at
  \<open>-20.15\<close> the double is just under 253 and the code truncates to 252, the model
  to 253.
\<close>

definition truthy :: "int option \<Rightarrow> bool" where
  "truthy v = (case v of None \<Rightarrow> False | Some n \<Rightarrow> n \<noteq> 0)"

definition py_int :: "rat \<Rightarrow> int" where
  "py_int q = (if 0 \<le> q then \<lfloor>q\<rfloor> else \<lceil>q\<rceil>)"

definition set_cell_temperature ::
  "lc709203f \<Rightarrow> rat \<Rightarrow> world \<Rightarrow> (exn + unit) \<times> lc709203f \<times> world" where
  "set_cell_temperature self val w =
     (case thermistor_enable self w of
        (Inl e, self', w') \<Rightarrow> (Inl e, self', w')
      | (Inr t, self', w') \<Rightarrow>
          if truthy t
          then (Inl (ValueError ''temperature can only be set in i2c mode''), self', w')
          else write_word self' LC709203F_CMD_CELLTEMPERATURE
                 (py_int (val + 27315 / 100) * 10) w')"

subsection \<open>Construction\<close>

text \<open>
  The probe loop \<^verbatim>\<open>for _ in range(3)\<close> with its \<^verbatim>\<open>else\<close> branch.  The
  \<^verbatim>\<open>I2CDevice\<close> constructor is outside this module: its outcome is the next entry of
  \<open>probe_replies\<close>, \<open>None\<close> when the device answers.  Only \<^verbatim>\<open>ValueError\<close> is caught.
\<close>

fun probe_loop :: "nat list \<Rightarrow> int \<Rightarrow> exn option \<Rightarrow> world \<Rightarrow> (exn + int) \<times> world" where
  "probe_loop [] address value_exc w =
     (Inl (case value_exc of
             None \<Rightarrow> TypeError ''exceptions must derive from BaseException''
           | Some e \<Rightarrow> e), w)"
| "probe_loop (x # xs) address value_exc w =
     (let w1 = w\<lparr>probe_replies := stl (probe_replies w), log := log w @ [Probe address]\<rparr>
      in case shd (probe_replies w) of
           None \<Rightarrow> (Inr address, w1)
         | Some e \<Rightarrow>
             (case e of
                ValueError m \<Rightarrow> probe_loop xs address (Some e) (sleep w1)
              | OSError m \<Rightarrow> (Inl e, w1)
              | TypeError m \<Rightarrow> (Inl e, w1)))"

definition init :: "int \<Rightarrow> world \<Rightarrow> (exn + lc709203f) \<times> world" where
  "init address w =
     (case probe_loop [0..<3] address None w of
        (Inl e, w0) \<Rightarrow> (Inl e, w0)
      | (Inr dev, w0) \<Rightarrow>
          (case set_power_mode \<lparr>i2c_device = dev, buf = replicate 10 0\<rparr> PowerMode_OPERATE w0 of
             (Inl e, self1, w1) \<Rightarrow> (Inl e, w1)
           | (Inr u1, self1, w1) \<Rightarrow>
               (case set_pack_size self1 PackSize_MAH500 w1 of
                  (Inl e, self2, w2) \<Rightarrow> (Inl e, w2)
                | (Inr u2, self2, w2) \<Rightarrow>
                    (case set_battery_profile self2 1 w2 of
                       (Inl e, self3, w3) \<Rightarrow> (Inl e, w3)
                     | (Inr u3, self3, w3) \<Rightarrow>
                         (case init_RSOC self3 (sleep w3) of
                            (Inl e, self4, w4) \<Rightarrow> (Inl e, w4)
                          | (Inr u4, self4, w4) \<Rightarrow> (Inr self4, sleep w4))))))"

subsection \<open>Notions used to state the properties\<close>

definition hdr :: "byte \<Rightarrow> byte list \<Rightarrow> bool" where
  "hdr cmd b = (length b = 10 \<and> b ! 0 = 0x16 \<and> b ! 1 = cmd \<and> b ! 2 = 0x17)"

definition is_OSError :: "exn \<Rightarrow> bool" where
  "is_OSError e = (case e of OSError m \<Rightarrow> True | ValueError m \<Rightarrow> False | TypeError m \<Rightarrow> False)"

definition read_outcome :: "byte \<Rightarrow> reply \<Rightarrow> exn + int" where
  "read_outcome cmd r =
     (case r of
        Nack e \<Rightarrow> Inl e
      | Ack d0 d1 d2 d3 \<Rightarrow>
          if generate_crc [0x16, cmd, 0x17, d0, d1] \<noteq> uint d2
          then Inl (OSError ''CRC failure on reading word'')
          else Inr (push_bit 8 (uint d1) OR uint d0))"

definition read_fails :: "byte \<Rightarrow> reply \<Rightarrow> bool" where
  "read_fails cmd r = (case read_outcome cmd r of Inl e \<Rightarrow> is_OSError e | Inr v \<Rightarrow> False)"

definition fill :: "reply \<Rightarrow> byte list \<Rightarrow> byte list" where
  "fill r b = (case r of Nack e \<Rightarrow> b | Ack d0 d1 d2 d3 \<Rightarrow> b[3 := d0, 4 := d1, 5 := d2, 6 := d3])"

definition after_transfers :: "nat \<Rightarrow> event \<Rightarrow> world \<Rightarrow> world" where
  "after_transfers n ev w =
     w\<lparr>bus_replies := sdrop n (bus_replies w), log := log w @ replicate n ev\<rparr>"

definition with_header :: "byte \<Rightarrow> byte list \<Rightarrow> byte list" where
  "with_header cmd b = b[0 := 0x16, 1 := cmd, 2 := 0x17]"

text \<open>
  The CRC as the specification words it, on an 8-bit accumulator: XOR the byte in, then
  eight rounds of shift left, with XOR 0x07 when the high bit was set.
\<close>

definition spec_crc8_round :: "byte \<Rightarrow> byte" where
  "spec_crc8_round acc = (if bit acc 7 then push_bit 1 acc XOR 0x07 else push_bit 1 acc)"

definition spec_crc8 :: "byte list \<Rightarrow> byte" where
  "spec_crc8 bs = fold (\<lambda>b acc. (spec_crc8_round ^^ 8) (acc XOR b)) bs 0"

text \<open>
  The frame \<^verbatim>\<open>_write_word\<close> leaves in \<^verbatim>\<open>buf[0:5]\<close>, and what one reply means
  to a write.
\<close>

definition write_frame :: "byte \<Rightarrow> int \<Rightarrow> byte list" where
  "write_frame cmd data =
     [0x16, cmd, word_of_int (data AND 0xFF), word_of_int (drop_bit 8 data AND 0xFF),
      word_of_int (generate_crc
        [0x16, cmd, word_of_int (data AND 0xFF), word_of_int (drop_bit 8 data AND 0xFF)])]"

definition write_outcome :: "reply \<Rightarrow> exn + unit" where
  "write_outcome r = (case r of Nack e \<Rightarrow> Inl e | Ack d0 d1 d2 d3 \<Rightarrow> Inr ())"

definition write_fails :: "reply \<Rightarrow> bool" where
  "write_fails r = (case r of Nack e \<Rightarrow> is_OSError e | Ack d0 d1 d2 d3 \<Rightarrow> False)"

text \<open>A driver object as \<^verbatim>\<open>__init__\<close> allocates it, and a world with a given bus.\<close>

definition dev0 :: lc709203f where
  "dev0 = \<lparr>i2c_device = 0x0B, buf = replicate 10 0\<rparr>"

definition bus_world :: "reply stream \<Rightarrow> world" where
  "bus_world rs = \<lparr>probe_replies = sconst None, bus_replies = rs, log = []\<rparr>"

text \<open>A reading of 3700 with its CRC, and the same reading with a wrong CRC.\<close>

definition reading_3700 :: reply where
  "reading_3700 = Ack 0x74 0x0E 0xB7 0"

definition corrupt_3700 :: reply where
  "corrupt_3700 = Ack 0x74 0x0E 0xB6 0"

definition eio :: reply where
  "eio = Nack (OSError ''[Errno 5] Input/output error'')"

definition nine_failures_then_3700 :: "reply stream" where
  "nine_failures_then_3700 = (replicate 8 eio @ [corrupt_3700]) @- sconst reading_3700"

definition acked :: "reply \<Rightarrow> bool" where
  "acked r = (case r of Nack e \<Rightarrow> False | Ack d0 d1 d2 d3 \<Rightarrow> True)"

definition no_device :: "exn option" where
  "no_device = Some (ValueError ''No I2C device at address: 0xb'')"

definition absent_world :: world where
  "absent_world =
     \<lparr>probe_replies = no_device ## no_device ## no_device ## sconst None,
      bus_replies = sconst reading_3700, log = []\<rparr>"

definition waking_world :: world where
  "waking_world =
     \<lparr>probe_replies = no_device ## sconst None,
      bus_replies = eio ## sconst reading_3700, log = []\<rparr>"

definition dev_0C :: lc709203f where
  "dev_0C = \<lparr>i2c_device = 0x0C, buf = [0x16, 0x07, 0x55, 0xAA, 0x17, 0, 0, 0, 0, 0]\<rparr>"

definition status_off :: reply where
  "status_off = Ack 0x00 0x00 0xDE 0"

definition status_on :: reply where
  "status_on = Ack 0x01 0x00 0xCB 0"

definition spec_read_fails :: "byte \<Rightarrow> reply \<Rightarrow> bool" where
  "spec_read_fails cmd r =
     (case r of
        Nack e \<Rightarrow> is_OSError e
      | Ack d0 d1 d2 d3 \<Rightarrow> spec_crc8 [0x16, cmd, 0x17, d0, d1] \<noteq> d2)"

section \<open>Properties\<close>

subsection \<open>The read transaction\<close>

lemma list10: "length (b::'a list) = 10 \<Longrightarrow> \<exists>x0 x1 x2 x3 x4 x5 x6 x7 x8 x9. b = [x0,x1,x2,x3,x4,x5,x6,x7,x8,x9]"
  by (auto simp: eval_nat_numeral length_Suc_conv)

lemma hdr_list: "hdr cmd b \<Longrightarrow> \<exists>x3 x4 x5 x6 x7 x8 x9. b = [0x16, cmd, 0x17, x3, x4, x5, x6, x7, x8, x9]"
  unfolding hdr_def using list10[of b] by auto

lemma hdr_fill: "hdr cmd b \<Longrightarrow> hdr cmd (fill r b)"
  by (auto simp: hdr_def fill_def split: reply.splits)

lemma read_try_outcome:
  assumes "hdr cmd (buf s)"
  shows "read_try s w =
           (read_outcome cmd (shd (bus_replies w)),
            s\<lparr>buf := fill (shd (bus_replies w)) (buf s)\<rparr>,
            after_transfers 1 (WriteThenRead (i2c_device s) [cmd] 4) w)"
proof -
  obtain x3 x4 x5 x6 x7 x8 x9 where b: "buf s = [0x16, cmd, 0x17, x3, x4, x5, x6, x7, x8, x9]"
    using hdr_list[OF assms] by blast
  show ?thesis
    by (cases "shd (bus_replies w)")
       (simp_all add: read_try_def write_then_readinto_def read_outcome_def fill_def
          after_transfers_def b Let_def)
qed

lemma after_transfers_0: "after_transfers 0 ev w = w"
  by (simp add: after_transfers_def)

lemma after_transfers_Suc:
  "after_transfers n ev (after_transfers (Suc 0) ev w) = after_transfers (Suc n) ev w"
  by (simp add: after_transfers_def replicate_append_same)

lemma read_retry_step:
  assumes "hdr cmd (buf s)"
  shows "read_retry (x # xs) s w =
           (case read_outcome cmd (shd (bus_replies w)) of
              Inr v \<Rightarrow> (Inr (Some v), s\<lparr>buf := fill (shd (bus_replies w)) (buf s)\<rparr>,
                         after_transfers 1 (WriteThenRead (i2c_device s) [cmd] 4) w)
            | Inl e \<Rightarrow>
                if is_OSError e \<and> x \<noteq> 9
                then read_retry xs (s\<lparr>buf := fill (shd (bus_replies w)) (buf s)\<rparr>)
                       (after_transfers 1 (WriteThenRead (i2c_device s) [cmd] 4) w)
                else (Inl e, s\<lparr>buf := fill (shd (bus_replies w)) (buf s)\<rparr>,
                      after_transfers 1 (WriteThenRead (i2c_device s) [cmd] 4) w))"
  by (simp add: read_try_outcome[OF assms] is_OSError_def LC709203F_I2C_RETRY_COUNT_def
        split: sum.splits exn.splits)

lemma read_retry_skip:
  assumes "hdr cmd (buf s)"
    and "\<forall>i<length xs. read_fails cmd (bus_replies w !! i)"
    and "9 \<notin> set xs"
  shows "\<exists>s'. hdr cmd (buf s') \<and> i2c_device s' = i2c_device s \<and>
           read_retry (xs @ ys) s w =
             read_retry ys s' (after_transfers (length xs) (WriteThenRead (i2c_device s) [cmd] 4) w)"
  using assms
proof (induction xs arbitrary: s w)
  case Nil
  then show ?case by (auto simp: after_transfers_0)
next
  case (Cons x xs)
  let ?s1 = "s\<lparr>buf := fill (shd (bus_replies w)) (buf s)\<rparr>"
  let ?w1 = "after_transfers 1 (WriteThenRead (i2c_device s) [cmd] 4) w"
  have h1: "hdr cmd (buf ?s1)" using Cons.prems(1) by (simp add: hdr_fill)
  have f0: "read_fails cmd (shd (bus_replies w))" using Cons.prems(2) by force
  have fs: "\<forall>i<length xs. read_fails cmd (bus_replies ?w1 !! i)"
    using Cons.prems(2) by (auto simp: after_transfers_def)
  have x9: "x \<noteq> 9" "9 \<notin> set xs" using Cons.prems(3) by auto
  obtain s' where s': "hdr cmd (buf s')" "i2c_device s' = i2c_device ?s1"
    "read_retry (xs @ ys) ?s1 ?w1 =
       read_retry ys s' (after_transfers (length xs) (WriteThenRead (i2c_device s) [cmd] 4) ?w1)"
    using Cons.IH[OF h1 fs x9(2)] by auto
  have "read_retry ((x # xs) @ ys) s w = read_retry (xs @ ys) ?s1 ?w1"
    using f0 x9(1) by (simp add: read_retry_step[OF Cons.prems(1)] read_fails_def del: read_retry.simps split: sum.splits)
  then show ?case using s' by (auto simp: after_transfers_Suc simp del: read_retry.simps)
qed

lemma hdr_with_header: "length b = 10 \<Longrightarrow> hdr cmd (with_header cmd b)"
  by (simp add: hdr_def with_header_def)

lemma read_word_unfold:
  assumes "length (buf self) = 10"
  shows "read_word self cmd w =
           read_retry [0..<10] (self\<lparr>buf := with_header cmd (buf self)\<rparr>) w"
  using assms
  by (simp add: read_word_def with_header_def LC709203F_I2C_RETRY_COUNT_def
        LC709203F_I2CADDR_DEFAULT_def Let_def del: read_retry.simps upt_Suc)

lemma read_retry_bound:
  assumes "hdr cmd (buf s)"
  shows "\<exists>k\<le>length xs. (xs = [] \<or> 1 \<le> k) \<and>
           snd (snd (read_retry xs s w)) = after_transfers k (WriteThenRead (i2c_device s) [cmd] 4) w"
  using assms
proof (induction xs arbitrary: s w)
  case Nil
  then show ?case by (simp add: after_transfers_0)
next
  case (Cons x xs)
  let ?s1 = "s\<lparr>buf := fill (shd (bus_replies w)) (buf s)\<rparr>"
  let ?w1 = "after_transfers 1 (WriteThenRead (i2c_device s) [cmd] 4) w"
  have h1: "hdr cmd (buf ?s1)" using Cons.prems by (simp add: hdr_fill)
  obtain k where k: "k \<le> length xs"
    "snd (snd (read_retry xs ?s1 ?w1)) = after_transfers k (WriteThenRead (i2c_device s) [cmd] 4) ?w1"
    using Cons.IH[OF h1, of ?w1] by auto
  show ?case
  proof (cases "\<exists>e. read_outcome cmd (shd (bus_replies w)) = Inl e \<and> is_OSError e \<and> x \<noteq> 9")
    case True
    then have "read_retry (x # xs) s w = read_retry xs ?s1 ?w1"
      by (auto simp: read_retry_step[OF Cons.prems] simp del: read_retry.simps)
    then have "snd (snd (read_retry (x # xs) s w)) =
                 after_transfers (Suc k) (WriteThenRead (i2c_device s) [cmd] 4) w"
      using k(2) by (simp add: after_transfers_Suc del: read_retry.simps)
    then show ?thesis using k(1) by (intro exI[of _ "Suc k"]) simp
  next
    case False
    then have "snd (snd (read_retry (x # xs) s w)) = ?w1"
      by (auto simp: read_retry_step[OF Cons.prems] simp del: read_retry.simps split: sum.splits)
    then show ?thesis by (intro exI[of _ 1]) simp
  qed
qed


subsection \<open>The CRC on integers and on bytes\<close>

lemma and_255_take_bit: "(x::int) AND 0xFF = take_bit 8 x"
proof -
  have "(0xFF::int) = mask 8" by (simp add: mask_eq_exp_minus_1)
  then show ?thesis by (simp only: take_bit_eq_mask)
qed

lemma high_bit: "(uint (c::byte) AND 0x80 \<noteq> 0) = bit c 7"
proof -
  have "(0x80::int) = 2 ^ 7" by simp
  then have "(uint c AND 0x80 = 0) = (\<not> bit (uint c) 7)"
    by (simp only: and_exp_eq_0_iff_not_bit)
  then show ?thesis by (simp add: bit_uint_iff)
qed

lemma crc_round_uint:
  "(if uint c AND 0x80 \<noteq> 0 then push_bit 1 (uint c) XOR 0x07 else push_bit 1 (uint c)) AND 0xFF
     = uint (spec_crc8_round c)"
proof -
  have p: "uint (push_bit 1 c) = take_bit 8 (push_bit 1 (uint c))"
    using unsigned_push_bit_eq[of 1 c, where ?'a = int] by simp
  have s: "uint (7::byte) = 7" by simp
  have x: "uint (push_bit 1 c XOR 7) = take_bit 8 (push_bit 1 (uint c) XOR 7)"
    unfolding uint_xor p s take_bit_xor by simp
  show ?thesis
  proof (cases "bit c 7")
    case True
    then show ?thesis unfolding and_255_take_bit high_bit spec_crc8_round_def
      by (simp only: if_True x)
  next
    case False
    then show ?thesis unfolding and_255_take_bit high_bit spec_crc8_round_def
      by (simp only: if_False p)
  qed
qed

lemma crc_bits_uint: "crc_bits n (uint c) = uint ((spec_crc8_round ^^ n) c)"
proof (induction n arbitrary: c)
  case 0
  then show ?case by simp
next
  case (Suc n)
  have "crc_bits (Suc n) (uint c) = crc_bits n (uint (spec_crc8_round c))"
    by (simp only: crc_bits.simps crc_round_uint)
  then show ?case by (simp add: Suc.IH funpow_swap1)
qed

lemma fold_crc_uint:
  "fold (\<lambda>byte crc. crc_bits 8 (crc XOR uint byte)) data (uint acc)
     = uint (fold (\<lambda>b acc. (spec_crc8_round ^^ 8) (acc XOR b)) data acc)"
proof (induction data arbitrary: acc)
  case Nil
  then show ?case by simp
next
  case (Cons b data)
  have "crc_bits 8 (uint acc XOR uint b) = uint ((spec_crc8_round ^^ 8) (acc XOR b))"
    using crc_bits_uint[of 8 "acc XOR b"] by (simp add: uint_xor)
  then show ?case using Cons.IH[of "(spec_crc8_round ^^ 8) (acc XOR b)"] by simp
qed

subsection \<open>Bytes of a word\<close>

lemma uint_byte_lt: "uint (d::byte) < 256"
  using uint_lt2p[of d] by simp

lemma little_endian: "push_bit 8 (uint d1) OR uint (d0::byte) = uint d0 + 256 * uint d1"
proof -
  have t: "take_bit 8 (uint d0) = uint d0"
    by (simp add: take_bit_int_eq_self_iff uint_byte_lt) 
  then have "concat_bit 8 (uint d0) (uint d1) = uint d0 OR push_bit 8 (uint d1)"
    by (simp add: concat_bit_def)
  moreover have "concat_bit 8 (uint d0) (uint d1) = uint d0 + push_bit 8 (uint d1)"
    using t by (simp add: concat_bit_eq)
  ultimately show ?thesis by (simp add: push_bit_eq_mult or.commute)
qed

lemma and_255: "(x::int) AND 0xFF = x mod 256"
proof -
  have "(0xFF::int) = mask 8" by (simp add: mask_eq_exp_minus_1)
  then have "x AND 0xFF = take_bit 8 x" by (simp only: take_bit_eq_mask)
  then show ?thesis by (simp add: take_bit_eq_mod)
qed

lemma uint_low: "uint (word_of_int (x AND 0xFF) :: byte) = x mod 256"
  by (simp add: and_255 uint_word_of_int)

lemma uint_high: "uint (word_of_int (drop_bit 8 x AND 0xFF) :: byte) = x div 256 mod 256"
  by (simp add: and_255 uint_word_of_int drop_bit_eq_div)

lemma bytes_mod: "uint (word_of_int (x AND 0xFF) :: byte) + 256 * uint (word_of_int (drop_bit 8 x AND 0xFF) :: byte) = x mod 65536"
proof -
  have "x mod (256 * 256) = 256 * (x div 256 mod 256) + x mod 256"
    using zmod_zmult2_eq[of 256 x 256] by simp
  then show ?thesis unfolding uint_low by (simp add: drop_bit_eq_div)
qed

subsection \<open>The write transaction and the retry budget\<close>

lemma write_word_unfold:
  assumes "length (buf self) = 10"
  shows "write_word self cmd data w =
           write_retry [0..<10] (self\<lparr>buf := write_frame cmd data @ drop 5 (buf self)\<rparr>) w"
proof -
  obtain x0 x1 x2 x3 x4 x5 x6 x7 x8 x9 where b: "buf self = [x0,x1,x2,x3,x4,x5,x6,x7,x8,x9]"
    using list10[OF assms] by blast
  show ?thesis
    by (simp add: write_word_def write_frame_def LC709203F_I2C_RETRY_COUNT_def
          LC709203F_I2CADDR_DEFAULT_def Let_def b del: write_retry.simps upt_Suc)
qed

lemma write_retry_step:
  assumes "take 4 (drop 1 (buf s)) = tx"
  shows "write_retry (x # xs) s w =
           (case write_outcome (shd (bus_replies w)) of
              Inr u \<Rightarrow> (Inr (), s, after_transfers 1 (Write (i2c_device s) tx) w)
            | Inl e \<Rightarrow>
                if is_OSError e \<and> x \<noteq> 9
                then write_retry xs s (after_transfers 1 (Write (i2c_device s) tx) w)
                else (Inl e, s, after_transfers 1 (Write (i2c_device s) tx) w))"
  using assms
  by (cases "shd (bus_replies w)")
     (simp_all add: i2c_write_def write_outcome_def is_OSError_def after_transfers_def
        LC709203F_I2C_RETRY_COUNT_def Let_def split: exn.splits)

lemma write_retry_skip:
  assumes "take 4 (drop 1 (buf s)) = tx"
    and "\<forall>i<length xs. write_fails (bus_replies w !! i)"
    and "9 \<notin> set xs"
  shows "write_retry (xs @ ys) s w = write_retry ys s (after_transfers (length xs) (Write (i2c_device s) tx) w)"
  using assms
proof (induction xs arbitrary: w)
  case Nil
  then show ?case by (simp add: after_transfers_0)
next
  case (Cons x xs)
  let ?w1 = "after_transfers 1 (Write (i2c_device s) tx) w"
  have f0: "write_fails (shd (bus_replies w))" using Cons.prems(2) by force
  have fs: "\<forall>i<length xs. write_fails (bus_replies ?w1 !! i)"
    using Cons.prems(2) by (auto simp: after_transfers_def)
  have x9: "x \<noteq> 9" "9 \<notin> set xs" using Cons.prems(3) by auto
  have "write_retry ((x # xs) @ ys) s w = write_retry (xs @ ys) s ?w1"
    using f0 x9(1)
    by (simp add: write_retry_step[OF Cons.prems(1)] write_fails_def write_outcome_def
          del: write_retry.simps split: reply.splits)
  then show ?case
    using Cons.IH[OF Cons.prems(1) fs x9(2)]
    by (simp add: after_transfers_Suc del: write_retry.simps)
qed

lemma write_retry_bound:
  assumes "take 4 (drop 1 (buf s)) = tx"
  shows "\<exists>k\<le>length xs. (xs = [] \<or> 1 \<le> k) \<and>
           snd (snd (write_retry xs s w)) = after_transfers k (Write (i2c_device s) tx) w"
  using assms
proof (induction xs arbitrary: w)
  case Nil
  then show ?case by (simp add: after_transfers_0)
next
  case (Cons x xs)
  let ?w1 = "after_transfers 1 (Write (i2c_device s) tx) w"
  obtain k where k: "k \<le> length xs"
    "snd (snd (write_retry xs s ?w1)) = after_transfers k (Write (i2c_device s) tx) ?w1"
    using Cons.IH[OF Cons.prems, of ?w1] by blast
  show ?case
  proof (cases "\<exists>e. write_outcome (shd (bus_replies w)) = Inl e \<and> is_OSError e \<and> x \<noteq> 9")
    case True
    then have "write_retry (x # xs) s w = write_retry xs s ?w1"
      by (auto simp: write_retry_step[OF Cons.prems] simp del: write_retry.simps)
    then have "snd (snd (write_retry (x # xs) s w)) = after_transfers (Suc k) (Write (i2c_device s) tx) w"
      using k(2) by (simp add: after_transfers_Suc del: write_retry.simps)
    then show ?thesis using k(1) by (intro exI[of _ "Suc k"]) simp
  next
    case False
    then have "snd (snd (write_retry (x # xs) s w)) = ?w1"
      by (auto simp: write_retry_step[OF Cons.prems] simp del: write_retry.simps split: sum.splits)
    then show ?thesis by (intro exI[of _ 1]) simp
  qed
qed

lemma after_transfers_add:
  "after_transfers m ev (after_transfers n ev w) = after_transfers (n + m) ev w"
  by (simp add: after_transfers_def replicate_add sdrop_add)

lemma range10_split: "n \<le> 9 \<Longrightarrow> [0..<10] = [0..<n] @ n # [Suc n..<10]"
  using upt_add_eq_append[of 0 n "10 - n"] by (simp add: upt_conv_Cons)

lemma nine_notin: "n \<le> 9 \<Longrightarrow> 9 \<notin> set [0..<n]"
  by simp

lemma shd_after_transfers: "shd (bus_replies (after_transfers n ev w)) = bus_replies w !! n"
  by (simp add: after_transfers_def)

lemma read_word_after_failures:
  assumes len: "length (buf self) = 10"
    and n: "n \<le> 9"
    and fails: "\<forall>i<n. read_fails cmd (bus_replies w !! i)"
    and last: "n = 9 \<or> \<not> read_fails cmd (bus_replies w !! n)"
  shows "fst (read_word self cmd w) = map_sum id Some (read_outcome cmd (bus_replies w !! n))
       \<and> snd (snd (read_word self cmd w)) = after_transfers (Suc n) (WriteThenRead (i2c_device self) [cmd] 4) w"
proof -
  let ?ev = "WriteThenRead (i2c_device self) [cmd] 4"
  let ?s = "self\<lparr>buf := with_header cmd (buf self)\<rparr>"
  have h: "hdr cmd (buf ?s)" using len by (simp add: hdr_with_header)
  have f: "\<forall>i<length [0..<n]. read_fails cmd (bus_replies w !! i)" using fails by simp
  obtain s' where s': "hdr cmd (buf s')" "i2c_device s' = i2c_device self"
    "read_retry ([0..<n] @ n # [Suc n..<10]) ?s w =
       read_retry (n # [Suc n..<10]) s' (after_transfers (length [0..<n]) ?ev w)"
    using read_retry_skip[OF h f nine_notin[OF n], of "n # [Suc n..<10]"] by auto
  have r: "read_word self cmd w = read_retry (n # [Suc n..<10]) s' (after_transfers n ?ev w)"
    using s'(3) by (simp add: read_word_unfold[OF len] range10_split[OF n] del: read_retry.simps upt_Suc)
  show ?thesis
    using last unfolding r read_retry_step[OF s'(1)] s'(2) shd_after_transfers
    by (auto simp: read_fails_def after_transfers_add simp del: read_retry.simps upt_Suc split: sum.splits)
qed

lemma write_word_after_failures:
  assumes len: "length (buf self) = 10"
    and n: "n \<le> 9"
    and fails: "\<forall>i<n. write_fails (bus_replies w !! i)"
    and last: "n = 9 \<or> \<not> write_fails (bus_replies w !! n)"
  shows "write_word self cmd data w =
           (write_outcome (bus_replies w !! n),
            self\<lparr>buf := write_frame cmd data @ drop 5 (buf self)\<rparr>,
            after_transfers (Suc n) (Write (i2c_device self) (tl (write_frame cmd data))) w)"
proof -
  let ?ev = "Write (i2c_device self) (tl (write_frame cmd data))"
  let ?s = "self\<lparr>buf := write_frame cmd data @ drop 5 (buf self)\<rparr>"
  have t: "take 4 (drop 1 (buf ?s)) = tl (write_frame cmd data)"
    by (simp add: write_frame_def)
  have f: "\<forall>i<length [0..<n]. write_fails (bus_replies w !! i)" using fails by simp
  have r: "write_word self cmd data w = write_retry (n # [Suc n..<10]) ?s (after_transfers n ?ev w)"
    using write_retry_skip[OF t f nine_notin[OF n], of "n # [Suc n..<10]"]
    by (simp add: write_word_unfold[OF len] range10_split[OF n] del: write_retry.simps upt_Suc)
  show ?thesis
    using last unfolding r write_retry_step[OF t] shd_after_transfers
    by (auto simp: write_fails_def write_outcome_def after_transfers_add
          simp del: write_retry.simps upt_Suc split: sum.splits reply.splits)
qed

lemma dev0_device: "i2c_device dev0 = 0x0B"
  by (simp add: dev0_def)

lemma dev0_length: "length (buf dev0) = 10"
  by (simp add: dev0_def)

lemma crc_3700: "generate_crc [0x16, 0x09, 0x17, 0x74, 0x0E] = 0xB7"
  by code_simp

lemma read_outcome_reading: "read_outcome 0x09 reading_3700 = Inr 3700"
  by (simp add: read_outcome_def reading_3700_def crc_3700 little_endian)

lemma read_outcome_corrupt:
  "read_outcome 0x09 corrupt_3700 = Inl (OSError ''CRC failure on reading word'')"
  by (simp add: read_outcome_def corrupt_3700_def crc_3700)

lemma read_fails_eio: "read_fails cmd eio"
  by (simp add: read_fails_def read_outcome_def eio_def is_OSError_def)

lemma write_fails_eio: "write_fails eio"
  by (simp add: write_fails_def eio_def is_OSError_def)

lemma read_fails_corrupt: "read_fails 0x09 corrupt_3700"
  by (simp add: read_fails_def read_outcome_corrupt is_OSError_def)

lemma write_fails_corrupt: "\<not> write_fails corrupt_3700"
  by (simp add: write_fails_def corrupt_3700_def)

lemma nine_failures_read: "\<forall>i<9. read_fails 0x09 (nine_failures_then_3700 !! i)"
proof (intro allI impI)
  fix i :: nat
  assume "i < 9"
  then have "i < 8 \<or> i = 8" by arith
  then show "read_fails 0x09 (nine_failures_then_3700 !! i)"
    by (auto simp: nine_failures_then_3700_def nth_append read_fails_eio read_fails_corrupt)
qed

lemma nine_failures_tenth: "nine_failures_then_3700 !! 9 = reading_3700"
  by (simp add: nine_failures_then_3700_def)

lemma log_after_transfers: "log (after_transfers n ev (bus_world rs)) = replicate n ev"
  by (simp add: after_transfers_def bus_world_def)

lemma read_outcome_mismatch:
  "generate_crc [0x16, cmd, 0x17, d0, d1] \<noteq> uint d2 \<Longrightarrow>
     read_outcome cmd (Ack d0 d1 d2 d3) = Inl (OSError ''CRC failure on reading word'')"
  by (simp add: read_outcome_def)



lemma read_word_bus_down:
  assumes "length (buf self) = 10" and "bus_replies w = sconst (Nack (OSError m))"
  shows "fst (read_word self cmd w) = Inl (OSError m)"
proof -
  have f: "\<forall>i<9. read_fails cmd (bus_replies w !! i)"
    by (simp add: assms(2) read_fails_def read_outcome_def is_OSError_def)
  show ?thesis
    using read_word_after_failures[OF assms(1) _ f]
    by (simp add: assms(2) read_outcome_def)
qed

lemma write_word_bus_down:
  assumes "length (buf self) = 10" and "bus_replies w = sconst (Nack (OSError m))"
  shows "fst (write_word self cmd data w) = Inl (OSError m)"
proof -
  have f: "\<forall>i<9. write_fails (bus_replies w !! i)"
    by (simp add: assms(2) write_fails_def is_OSError_def)
  show ?thesis
    using write_word_after_failures[OF assms(1) _ f, of cmd data]
    by (simp add: assms(2) write_outcome_def)
qed

lemma swallows_OSError:
  fixes p :: "(exn + int option) \<times> lc709203f \<times> world" and f :: "int \<Rightarrow> rat"
  assumes "fst p = Inl (OSError m)"
  shows "fst (case p of
             (Inr None, self', w') \<Rightarrow>
               (Inl (TypeError ''unsupported operand type(s) for /''), self', w')
           | (Inr (Some v), self', w') \<Rightarrow> (Inr (Some (f v)), self', w')
           | (Inl e, self', w') \<Rightarrow>
               (case e of
                  OSError m \<Rightarrow> (Inr None, self', w')
                | ValueError m \<Rightarrow> (Inl e, self', w')
                | TypeError m \<Rightarrow> (Inl e, self', w'))) = Inr None"
  using assms by (cases p) auto

lemma write_word_eventually_acked:
  assumes len: "length (buf self) = 10"
    and bus: "bus_replies w = fs @- a ## rest"
    and n: "length fs \<le> 9"
    and fails: "\<forall>r\<in>set fs. write_fails r"
    and ack: "acked a"
  shows "write_word self cmd data w =
           (Inr (), self\<lparr>buf := write_frame cmd data @ drop 5 (buf self)\<rparr>,
            w\<lparr>bus_replies := rest,
              log := log w @ replicate (Suc (length fs))
                       (Write (i2c_device self) (tl (write_frame cmd data)))\<rparr>)"
proof -
  have f: "\<forall>i<length fs. write_fails (bus_replies w !! i)"
    using fails by (simp add: bus)
  have a: "bus_replies w !! length fs = a" by (simp add: bus)
  have l: "length fs = 9 \<or> \<not> write_fails (bus_replies w !! length fs)"
    using ack by (cases a) (simp_all add: a acked_def write_fails_def)
  have o: "write_outcome a = Inr ()"
    using ack by (cases a) (simp_all add: acked_def write_outcome_def)
  have d: "sdrop (Suc (length fs)) (bus_replies w) = rest"
    using sdrop_shift[of "Suc (length fs)" fs "a ## rest"] by (simp add: bus)
  show ?thesis
    unfolding write_word_after_failures[OF len n f l] a o
    by (simp add: after_transfers_def d del: sdrop.simps replicate.simps)
qed

lemma probe_loop_failures:
  assumes "probe_replies w = map (\<lambda>m. Some (ValueError m)) ms @- ps"
    and "length ms \<le> length xs"
  shows "probe_loop xs address value_exc w =
           probe_loop (drop (length ms) xs) address
             (if ms = [] then value_exc else Some (ValueError (last ms)))
             (w\<lparr>probe_replies := ps,
                log := log w @ concat (replicate (length ms) [Probe address, Sleep])\<rparr>)"
  using assms
proof (induction ms arbitrary: xs value_exc w)
  case Nil
  then have "ps = probe_replies w" by simp
  then show ?case by simp
next
  case (Cons m ms)
  then obtain x xs' where xs: "xs = x # xs'" by (cases xs) auto
  let ?w1 = "sleep (w\<lparr>probe_replies := stl (probe_replies w), log := log w @ [Probe address]\<rparr>)"
  have p: "probe_replies ?w1 = map (\<lambda>m. Some (ValueError m)) ms @- ps"
    using Cons.prems(1) by (simp add: sleep_def)
  have l: "length ms \<le> length xs'" using Cons.prems(2) xs by simp
  have s: "probe_loop xs address value_exc w = probe_loop xs' address (Some (ValueError m)) ?w1"
    using Cons.prems(1) by (simp add: xs Let_def)
  show ?case
    unfolding s Cons.IH[OF p l]
    by (simp add: xs sleep_def)
qed

lemma PowerMode_OPERATE_eq: "PowerMode_OPERATE = 1"
  by (simp add: PowerMode_OPERATE_def PowerMode_def add_values_def add_value_def)

lemma PackSize_MAH500_eq: "PackSize_MAH500 = 0x10"
  by (simp add: PackSize_MAH500_def PackSize_def add_values_def add_value_def)

lemma is_valid_PowerMode: "is_valid PowerMode mode = (mode = 1 \<or> mode = 2)"
  by (auto simp: is_valid_def PowerMode_def add_values_def add_value_def)

lemma is_valid_PackSize:
  "is_valid PackSize sz =
     (sz = 0x08 \<or> sz = 0x0B \<or> sz = 0x0E \<or> sz = 0x10 \<or> sz = 0x19 \<or> sz = 0x2D \<or> sz = 0x30
      \<or> sz = 0x36)"
  by (auto simp: is_valid_def PackSize_def add_values_def add_value_def)

lemma write_frame_length: "length (write_frame cmd data @ drop 5 b) = 5 + (length b - 5)"
  by (simp add: write_frame_def)

lemma init_probe_exhausted:
  assumes "probe_replies w =
             Some (ValueError m1) ## Some (ValueError m2) ## Some (ValueError m3) ## ps"
  shows "init address w =
           (Inl (ValueError m3),
            w\<lparr>probe_replies := ps,
              log := log w @ [Probe address, Sleep, Probe address, Sleep, Probe address, Sleep]\<rparr>)"
proof -
  have p: "probe_replies w = map (\<lambda>m. Some (ValueError m)) [m1, m2, m3] @- ps"
    using assms by simp
  have l: "length [m1, m2, m3] \<le> length [0..<3::nat]" by simp
  have d: "drop (length [m1, m2, m3]) [0..<3::nat] = []" by simp
  show ?thesis
    unfolding init_def probe_loop_failures[OF p l] d
    by (simp add: numeral_3_eq_3)
qed

lemma init_configures:
  assumes probe: "probe_replies w = map (\<lambda>m. Some (ValueError m)) ms @- None ## ps"
    and k: "length ms < 3"
    and bus: "bus_replies w = f1 @- a1 ## f2 @- a2 ## f3 @- a3 ## f4 @- a4 ## rest"
    and n: "length f1 \<le> 9" "length f2 \<le> 9" "length f3 \<le> 9" "length f4 \<le> 9"
    and fails: "\<forall>r\<in>set f1. write_fails r" "\<forall>r\<in>set f2. write_fails r"
      "\<forall>r\<in>set f3. write_fails r" "\<forall>r\<in>set f4. write_fails r"
    and acks: "acked a1" "acked a2" "acked a3" "acked a4"
  shows "init address w =
           (Inr \<lparr>i2c_device = address, buf = write_frame 0x07 0xAA55 @ replicate 5 0\<rparr>,
            w\<lparr>probe_replies := ps, bus_replies := rest,
              log := log w @ concat (replicate (length ms) [Probe address, Sleep])
                @ [Probe address]
                @ replicate (Suc (length f1)) (Write address (tl (write_frame 0x15 1)))
                @ replicate (Suc (length f2)) (Write address (tl (write_frame 0x0B 0x10)))
                @ replicate (Suc (length f3)) (Write address (tl (write_frame 0x12 1)))
                @ [Sleep]
                @ replicate (Suc (length f4)) (Write address (tl (write_frame 0x07 0xAA55)))
                @ [Sleep]\<rparr>)"
proof -
  let ?l0 = "log w @ concat (replicate (length ms) [Probe address, Sleep]) @ [Probe address]"
  let ?e1 = "Write address (tl (write_frame 0x15 1))"
  let ?e2 = "Write address (tl (write_frame 0x0B 0x10))"
  let ?e3 = "Write address (tl (write_frame 0x12 1))"
  let ?e4 = "Write address (tl (write_frame 0x07 0xAA55))"
  define s0 where "s0 = \<lparr>i2c_device = address, buf = replicate 10 (0::byte)\<rparr>"
  define s1 where "s1 = s0\<lparr>buf := write_frame 0x15 1 @ drop 5 (buf s0)\<rparr>"
  define s2 where "s2 = s1\<lparr>buf := write_frame 0x0B 0x10 @ drop 5 (buf s1)\<rparr>"
  define s3 where "s3 = s2\<lparr>buf := write_frame 0x12 1 @ drop 5 (buf s2)\<rparr>"
  define s4 where "s4 = s3\<lparr>buf := write_frame 0x07 0xAA55 @ drop 5 (buf s3)\<rparr>"
  define w0 where "w0 = w\<lparr>probe_replies := ps, log := ?l0\<rparr>"
  define w1 where "w1 = w0\<lparr>bus_replies := f2 @- a2 ## f3 @- a3 ## f4 @- a4 ## rest,
                            log := log w0 @ replicate (Suc (length f1)) ?e1\<rparr>"
  define w2 where "w2 = w1\<lparr>bus_replies := f3 @- a3 ## f4 @- a4 ## rest,
                            log := log w1 @ replicate (Suc (length f2)) ?e2\<rparr>"
  define w3 where "w3 = w2\<lparr>bus_replies := f4 @- a4 ## rest,
                            log := log w2 @ replicate (Suc (length f3)) ?e3\<rparr>"
  define w4 where "w4 = (sleep w3)\<lparr>bus_replies := rest,
                            log := log (sleep w3) @ replicate (Suc (length f4)) ?e4\<rparr>"
  have len: "length (buf s0) = 10" "length (buf s1) = 10" "length (buf s2) = 10"
    "length (buf s3) = 10"
    by (simp_all add: s0_def s1_def s2_def s3_def write_frame_def)
  have dev: "i2c_device s0 = address" "i2c_device s1 = address" "i2c_device s2 = address"
    "i2c_device s3 = address"
    by (simp_all add: s0_def s1_def s2_def s3_def)
  have l: "length ms \<le> length [0..<3::nat]" using k by simp
  have d: "drop (length ms) [0..<3::nat] = length ms # [Suc (length ms)..<3]"
  proof -
    have "drop (length ms) [0..<3::nat] = [0 + length ms..<3]" by (rule drop_upt)
    also have "\<dots> = [length ms..<3]" by (simp only: add_0)
    also have "\<dots> = length ms # [Suc (length ms)..<3]" using k by (rule upt_conv_Cons)
    finally show ?thesis .
  qed
  have p: "probe_loop [0..<3] address None w = (Inr address, w0)"
    unfolding probe_loop_failures[OF probe l] d
    by (simp add: w0_def Let_def)
  have b0: "bus_replies w0 = f1 @- a1 ## f2 @- a2 ## f3 @- a3 ## f4 @- a4 ## rest"
    by (simp add: w0_def bus)
  have b1: "bus_replies w1 = f2 @- a2 ## f3 @- a3 ## f4 @- a4 ## rest" by (simp add: w1_def)
  have b2: "bus_replies w2 = f3 @- a3 ## f4 @- a4 ## rest" by (simp add: w2_def)
  have b3: "bus_replies (sleep w3) = f4 @- a4 ## rest" by (simp add: w3_def sleep_def)
  have c1: "set_power_mode s0 PowerMode_OPERATE w0 = (Inr (), s1, w1)"
    unfolding set_power_mode_def PowerMode_OPERATE_eq LC709203F_CMD_POWERMODE_def
    using write_word_eventually_acked[OF len(1) b0 n(1) fails(1) acks(1), of "0x15" 1]
    by (simp add: is_valid_PowerMode s1_def w1_def dev)
  have c2: "set_pack_size s1 PackSize_MAH500 w1 = (Inr (), s2, w2)"
    unfolding set_pack_size_def PackSize_MAH500_eq LC709203F_CMD_APA_def
    using write_word_eventually_acked[OF len(2) b1 n(2) fails(2) acks(2), of "0x0B" "0x10"]
    by (simp add: is_valid_PackSize s2_def w2_def dev)
  have c3: "set_battery_profile s2 1 w2 = (Inr (), s3, w3)"
    unfolding set_battery_profile_def LC709203F_CMD_BATTPROF_def
    using write_word_eventually_acked[OF len(3) b2 n(3) fails(3) acks(3), of "0x12" 1]
    by (simp add: s3_def w3_def dev)
  have c4: "init_RSOC s3 (sleep w3) = (Inr (), s4, w4)"
    unfolding init_RSOC_def LC709203F_CMD_INITRSOC_def
    using write_word_eventually_acked[OF len(4) b3 n(4) fails(4) acks(4), of "0x07" "0xAA55"]
    by (simp add: s4_def w4_def dev)
  have s4: "s4 = \<lparr>i2c_device = address, buf = write_frame 0x07 0xAA55 @ replicate 5 0\<rparr>"
    by (simp add: s4_def s3_def s2_def s1_def s0_def write_frame_def)
  have i: "init address w = (Inr s4, sleep w4)"
    unfolding init_def p by (simp add: s0_def[symmetric] c1 c2 c3 c4)
  show ?thesis
    unfolding i s4
    by (simp add: w4_def w3_def w2_def w1_def w0_def sleep_def del: replicate.simps)
qed

lemma crc_power_mode: "generate_crc [0x16, 0x15, 0x01, 0x00] = 0x64"
  by code_simp

lemma crc_pack_size: "generate_crc [0x16, 0x0B, 0x10, 0x00] = 0xA8"
  by code_simp

lemma crc_battery_profile: "generate_crc [0x16, 0x12, 0x01, 0x00] = 0x72"
  by code_simp

lemma crc_init_rsoc: "generate_crc [0x16, 0x07, 0x55, 0xAA] = 0x17"
  by code_simp

lemma frame_power_mode: "write_frame 0x15 1 = [0x16, 0x15, 0x01, 0x00, 0x64]"
  by (simp add: write_frame_def crc_power_mode)

lemma frame_pack_size: "write_frame 0x0B 0x10 = [0x16, 0x0B, 0x10, 0x00, 0xA8]"
  by (simp add: write_frame_def crc_pack_size)

lemma frame_battery_profile: "write_frame 0x12 1 = [0x16, 0x12, 0x01, 0x00, 0x72]"
  by (simp add: write_frame_def crc_battery_profile)

lemma frame_init_rsoc: "write_frame 0x07 0xAA55 = [0x16, 0x07, 0x55, 0xAA, 0x17]"
  by (simp add: write_frame_def crc_init_rsoc)

lemma sconst_unfold: "sconst x = x ## sconst x"
  by (rule stream.expand) simp

lemma write_retry_self: "fst (snd (write_retry xs s w)) = s"
proof (induction xs arbitrary: w)
  case Nil
  then show ?case by simp
next
  case (Cons x xs)
  show ?case
    unfolding write_retry_step[OF refl]
    by (simp add: Cons.IH del: write_retry.simps split: sum.splits)
qed

lemma read_retry_hdr:
  assumes "hdr cmd (buf s)"
  shows "hdr cmd (buf (fst (snd (read_retry xs s w))))"
  using assms
proof (induction xs arbitrary: s w)
  case Nil
  then show ?case by simp
next
  case (Cons x xs)
  let ?s1 = "s\<lparr>buf := fill (shd (bus_replies w)) (buf s)\<rparr>"
  have h1: "hdr cmd (buf ?s1)" using Cons.prems by (simp add: hdr_fill)
  show ?case
    unfolding read_retry_step[OF Cons.prems]
    using h1 Cons.IH[OF h1]
    by (simp del: read_retry.simps split: sum.splits)
qed

lemma hdr_take3: "hdr cmd b \<Longrightarrow> take 3 b = [0x16, cmd, 0x17]"
  using hdr_list[of cmd b] by auto

lemma crc_alarm_3000: "generate_crc [0x16, 0x14, 0xB8, 0x0B] = 0xCC"
  by code_simp

lemma crc_alarm_3000_at_0C: "generate_crc [0x18, 0x14, 0xB8, 0x0B] = 0x08"
  by code_simp

lemma frame_alarm_3000: "write_frame 0x14 3000 = [0x16, 0x14, 0xB8, 0x0B, 0xCC]"
  by (simp add: write_frame_def crc_alarm_3000)

lemma init_at_0C: "fst (init 0x0C (bus_world (sconst reading_3700))) = Inr dev_0C"
proof -
  let ?r = "reading_3700"
  let ?w = "bus_world (sconst ?r)"
  have p: "probe_replies ?w = map (\<lambda>m. Some (ValueError m)) [] @- None ## sconst None"
    using sconst_unfold[of None] by (simp add: bus_world_def)
  have u: "sconst ?r = ?r ## ?r ## ?r ## ?r ## sconst ?r"
    using sconst_unfold[of ?r] by simp
  have b: "bus_replies ?w = [] @- ?r ## [] @- ?r ## [] @- ?r ## [] @- ?r ## sconst ?r"
    using u by (simp add: bus_world_def)
  have a: "acked ?r" by (simp add: acked_def reading_3700_def)
  have five: "replicate 5 (0::byte) = [0, 0, 0, 0, 0]" by (simp add: eval_nat_numeral)
  show ?thesis
    using init_configures[OF p _ b _ _ _ _ _ _ _ _ a a a a, of "0x0C"]
    by (simp add: dev_0C_def frame_init_rsoc five)
qed

lemma write_at_0C:
  "write_word dev_0C 0x14 3000 (bus_world (sconst reading_3700)) =
     (Inr (), dev_0C\<lparr>buf := [0x16, 0x14, 0xB8, 0x0B, 0xCC, 0, 0, 0, 0, 0]\<rparr>,
      \<lparr>probe_replies = sconst None, bus_replies = sconst reading_3700,
       log = [Write 0x0C [0x14, 0xB8, 0x0B, 0xCC]]\<rparr>)"
proof -
  let ?r = "reading_3700"
  let ?w = "bus_world (sconst ?r)"
  have len: "length (buf dev_0C) = 10" by (simp add: dev_0C_def)
  have b: "bus_replies ?w = [] @- ?r ## sconst ?r"
    using sconst_unfold[of ?r] by (simp add: bus_world_def)
  have a: "acked ?r" by (simp add: acked_def reading_3700_def)
  show ?thesis
    using write_word_eventually_acked[OF len b _ _ a, of "0x14" 3000]
    by (simp add: frame_alarm_3000 dev_0C_def bus_world_def)
qed

lemma read_retry_device:
  assumes "hdr cmd (buf s)"
  shows "i2c_device (fst (snd (read_retry xs s w))) = i2c_device s"
  using assms
proof (induction xs arbitrary: s w)
  case Nil
  then show ?case by simp
next
  case (Cons x xs)
  let ?s1 = "s\<lparr>buf := fill (shd (bus_replies w)) (buf s)\<rparr>"
  have h1: "hdr cmd (buf ?s1)" using Cons.prems by (simp add: hdr_fill)
  show ?case
    unfolding read_retry_step[OF Cons.prems]
    using Cons.IH[OF h1]
    by (simp del: read_retry.simps split: sum.splits)
qed

lemma read_word_keeps_object:
  assumes "length (buf self) = 10"
  shows "length (buf (fst (snd (read_word self cmd w)))) = 10
       \<and> i2c_device (fst (snd (read_word self cmd w))) = i2c_device self"
proof -
  let ?s = "self\<lparr>buf := with_header cmd (buf self)\<rparr>"
  have h: "hdr cmd (buf ?s)" using assms by (simp add: hdr_with_header)
  show ?thesis
    unfolding read_word_unfold[OF assms]
    using read_retry_hdr[OF h, of "[0..<10]" w] read_retry_device[OF h, of "[0..<10]" w]
    by (simp add: hdr_def del: read_retry.simps upt_Suc)
qed

lemma read_word_first_reply:
  assumes len: "length (buf self) = 10"
    and ok: "read_outcome cmd (shd (bus_replies w)) = Inr v"
  shows "fst (read_word self cmd w) = Inr (Some v)
       \<and> snd (snd (read_word self cmd w)) =
           after_transfers 1 (WriteThenRead (i2c_device self) [cmd] 4) w"
proof -
  have f: "\<forall>i<0. read_fails cmd (bus_replies w !! i)" by simp
  have nf: "0 = (9::nat) \<or> \<not> read_fails cmd (bus_replies w !! 0)"
    using ok by (simp add: read_fails_def)
  show ?thesis
    using read_word_after_failures[OF len _ f nf] ok by simp
qed

lemma crc_status_off: "generate_crc [0x16, 0x16, 0x17, 0x00, 0x00] = 0xDE"
  by code_simp

lemma crc_status_on: "generate_crc [0x16, 0x16, 0x17, 0x01, 0x00] = 0xCB"
  by code_simp

lemma read_outcome_status_off: "read_outcome 0x16 status_off = Inr 0"
  by (simp add: read_outcome_def status_off_def crc_status_off)

lemma read_outcome_status_on: "read_outcome 0x16 status_on = Inr 1"
  by (simp add: read_outcome_def status_on_def crc_status_on)

lemma set_cell_temperature_enabled:
  assumes len: "length (buf self) = 10"
    and st: "read_outcome 0x16 (shd (bus_replies w)) = Inr v" and v: "v \<noteq> 0"
  shows "fst (set_cell_temperature self celsius w) =
           Inl (ValueError ''temperature can only be set in i2c mode'')
       \<and> snd (snd (set_cell_temperature self celsius w)) =
           after_transfers 1 (WriteThenRead (i2c_device self) [0x16] 4) w"
proof -
  obtain r s' w' where r: "read_word self 0x16 w = (r, s', w')"
    by (cases "read_word self 0x16 w") auto
  have "r = Inr (Some v)" "w' = after_transfers 1 (WriteThenRead (i2c_device self) [0x16] 4) w"
    using read_word_first_reply[OF len st] r by simp_all
  then show ?thesis
    using v by (simp add: set_cell_temperature_def thermistor_enable_def
        LC709203F_CMD_STATUSBIT_def r truthy_def)
qed

lemma set_cell_temperature_disabled:
  assumes len: "length (buf self) = 10"
    and bus: "bus_replies w = st ## a ## rest"
    and st: "read_outcome 0x16 st = Inr 0"
    and ack: "acked a"
  shows "fst (set_cell_temperature self celsius w) = Inr ()
       \<and> snd (snd (set_cell_temperature self celsius w)) =
           w\<lparr>bus_replies := rest,
             log := log w @
               [WriteThenRead (i2c_device self) [0x16] 4,
                Write (i2c_device self)
                  (tl (write_frame 0x08 (py_int (celsius + 27315 / 100) * 10)))]\<rparr>"
proof -
  obtain r s' w' where r: "read_word self 0x16 w = (r, s', w')"
    by (cases "read_word self 0x16 w") auto
  have o: "read_outcome 0x16 (shd (bus_replies w)) = Inr 0" using st by (simp add: bus)
  have r': "r = Inr (Some 0)"
    and w': "w' = after_transfers 1 (WriteThenRead (i2c_device self) [0x16] 4) w"
    using read_word_first_reply[OF len o] r by simp_all
  have s': "length (buf s') = 10" "i2c_device s' = i2c_device self"
    using read_word_keeps_object[OF len, of "0x16" w] r by simp_all
  have b: "bus_replies w' = [] @- a ## rest" by (simp add: w' after_transfers_def bus)
  show ?thesis
    using write_word_eventually_acked[OF s'(1) b _ _ ack, of "0x08"
        "py_int (celsius + 27315 / 100) * 10"]
    by (simp add: set_cell_temperature_def thermistor_enable_def LC709203F_CMD_STATUSBIT_def
          LC709203F_CMD_CELLTEMPERATURE_def r r' truthy_def s'(2) w' after_transfers_def)
qed

lemma truncated_kelvin: "py_int (101 / 4 + 27315 / 100) * 10 = 2980"
  by code_simp

lemma crc_temperature_2980: "generate_crc [0x16, 0x08, 0xA4, 0x0B] = 0x3F"
  by code_simp

lemma frame_temperature_2980: "write_frame 0x08 2980 = [0x16, 0x08, 0xA4, 0x0B, 0x3F]"
  by (simp add: write_frame_def crc_temperature_2980)

lemma crc_bconstant_70000: "generate_crc [0x16, 0x06, 0x70, 0x11] = 0xBB"
  by code_simp

lemma crc_alarm_70000: "generate_crc [0x16, 0x14, 0x70, 0x11] = 0xCF"
  by code_simp

lemma write_word_first_ack:
  assumes len: "length (buf self) = 10" and ack: "acked (shd (bus_replies w))"
  shows "fst (write_word self cmd data w) = Inr ()
       \<and> log (snd (snd (write_word self cmd data w))) =
           log w @ [Write (i2c_device self) (tl (write_frame cmd data))]"
proof -
  have b: "bus_replies w = [] @- shd (bus_replies w) ## stl (bus_replies w)" by simp
  show ?thesis
    using write_word_eventually_acked[OF len b _ _ ack, of cmd data] by simp
qed

lemma generate_crc_uint: "generate_crc data = uint (spec_crc8 data)"
  using fold_crc_uint[of data 0] by (simp add: generate_crc_def spec_crc8_def)

lemma crc_matches_iff:
  "(generate_crc [0x16, cmd, 0x17, d0, d1] = uint d2) = (spec_crc8 [0x16, cmd, 0x17, d0, d1] = d2)"
  unfolding generate_crc_uint by (rule word_uint_eq_iff[symmetric])

lemma spec_read_fails_eq: "spec_read_fails cmd r = read_fails cmd r"
  by (cases r) (simp_all add: spec_read_fails_def read_fails_def read_outcome_def crc_matches_iff
        is_OSError_def)

lemma drop7_fill: "hdr cmd b \<Longrightarrow> drop 7 (fill r b) = drop 7 b"
  using hdr_list[of cmd b] by (cases r) (auto simp: fill_def)

lemma take7_fill:
  "hdr cmd b \<Longrightarrow> take 7 (fill (Ack d0 d1 d2 d3) b) = [0x16, cmd, 0x17, d0, d1, d2, d3]"
  using hdr_list[of cmd b] by (auto simp: fill_def)

lemma drop7_with_header: "length b = 10 \<Longrightarrow> drop 7 (with_header cmd b) = drop 7 b"
  using list10[of b] by (auto simp: with_header_def)

lemma read_retry_skip_tail:
  assumes "hdr cmd (buf s)"
    and "\<forall>i<length xs. read_fails cmd (bus_replies w !! i)"
    and "9 \<notin> set xs"
  shows "\<exists>s'. hdr cmd (buf s') \<and> drop 7 (buf s') = drop 7 (buf s) \<and>
           i2c_device s' = i2c_device s \<and>
           read_retry (xs @ ys) s w =
             read_retry ys s' (after_transfers (length xs) (WriteThenRead (i2c_device s) [cmd] 4) w)"
  using assms
proof (induction xs arbitrary: s w)
  case Nil
  then show ?case by (auto simp: after_transfers_0)
next
  case (Cons x xs)
  let ?ev = "WriteThenRead (i2c_device s) [cmd] 4"
  let ?s1 = "s\<lparr>buf := fill (shd (bus_replies w)) (buf s)\<rparr>"
  let ?w1 = "after_transfers 1 ?ev w"
  have h1: "hdr cmd (buf ?s1)" using Cons.prems(1) by (simp add: hdr_fill)
  have d1: "drop 7 (buf ?s1) = drop 7 (buf s)" using Cons.prems(1) by (simp add: drop7_fill)
  have f0: "read_fails cmd (shd (bus_replies w))" using Cons.prems(2) by force
  have fs: "\<forall>i<length xs. read_fails cmd (bus_replies ?w1 !! i)"
    using Cons.prems(2) by (auto simp: after_transfers_def)
  have x9: "x \<noteq> 9" "9 \<notin> set xs" using Cons.prems(3) by auto
  obtain s' where s': "hdr cmd (buf s')" "drop 7 (buf s') = drop 7 (buf ?s1)"
    "i2c_device s' = i2c_device ?s1"
    "read_retry (xs @ ys) ?s1 ?w1 = read_retry ys s' (after_transfers (length xs) ?ev ?w1)"
    using Cons.IH[OF h1 fs x9(2)] by auto
  have "read_retry ((x # xs) @ ys) s w = read_retry (xs @ ys) ?s1 ?w1"
    using f0 x9(1)
    by (simp add: read_retry_step[OF Cons.prems(1)] read_fails_def del: read_retry.simps
          split: sum.splits)
  then show ?case
    using s' d1 by (auto simp: after_transfers_Suc simp del: read_retry.simps)
qed

lemma object_eq:
  fixes s' self :: lc709203f
  shows "i2c_device s' = i2c_device self \<Longrightarrow> s'\<lparr>buf := b\<rparr> = self\<lparr>buf := b\<rparr>"
  by (cases s'; cases self) simp

lemma read_word_at:
  assumes len: "length (buf self) = 10"
    and n: "n \<le> 9"
    and fails: "\<forall>i<n. read_fails cmd (bus_replies w !! i)"
    and ack: "bus_replies w !! n = Ack d0 d1 d2 d3"
    and last: "n = 9 \<or> \<not> read_fails cmd (bus_replies w !! n)"
  shows "read_word self cmd w =
           (map_sum id Some (read_outcome cmd (Ack d0 d1 d2 d3)),
            self\<lparr>buf := [0x16, cmd, 0x17, d0, d1, d2, d3] @ drop 7 (buf self)\<rparr>,
            after_transfers (Suc n) (WriteThenRead (i2c_device self) [cmd] 4) w)"
proof -
  let ?ev = "WriteThenRead (i2c_device self) [cmd] 4"
  let ?s = "self\<lparr>buf := with_header cmd (buf self)\<rparr>"
  have h: "hdr cmd (buf ?s)" using len by (simp add: hdr_with_header)
  have f: "\<forall>i<length [0..<n]. read_fails cmd (bus_replies w !! i)" using fails by simp
  obtain s' where s': "hdr cmd (buf s')" "drop 7 (buf s') = drop 7 (buf self)"
    "i2c_device s' = i2c_device self"
    "read_retry ([0..<n] @ n # [Suc n..<10]) ?s w =
       read_retry (n # [Suc n..<10]) s' (after_transfers (length [0..<n]) ?ev w)"
    using read_retry_skip_tail[OF h f nine_notin[OF n], of "n # [Suc n..<10]"]
    by (auto simp: drop7_with_header[OF len])
  have r: "read_word self cmd w = read_retry (n # [Suc n..<10]) s' (after_transfers n ?ev w)"
    using s'(4)
    by (simp add: read_word_unfold[OF len] range10_split[OF n] del: read_retry.simps upt_Suc)
  have "fill (Ack d0 d1 d2 d3) (buf s') =
          take 7 (fill (Ack d0 d1 d2 d3) (buf s')) @ drop 7 (fill (Ack d0 d1 d2 d3) (buf s'))"
    by simp
  then have b: "fill (Ack d0 d1 d2 d3) (buf s') =
                  [0x16, cmd, 0x17, d0, d1, d2, d3] @ drop 7 (buf self)"
    unfolding take7_fill[OF s'(1)] drop7_fill[OF s'(1)] s'(2) .
  have o: "s'\<lparr>buf := fill (Ack d0 d1 d2 d3) (buf s')\<rparr> =
             self\<lparr>buf := [0x16, cmd, 0x17, d0, d1, d2, d3] @ drop 7 (buf self)\<rparr>"
    unfolding b by (rule object_eq[OF s'(3)])
  show ?thesis
    using last unfolding r read_retry_step[OF s'(1)] s'(3) shd_after_transfers ack o
    by (auto simp: read_fails_def after_transfers_add simp del: read_retry.simps upt_Suc
          split: sum.splits)
qed

lemma range10_split_after: "n < 9 \<Longrightarrow> [0..<10] = [0..<Suc n] @ [Suc n..<10]"
  using upt_add_eq_append[of 0 "Suc n" "9 - n"] by simp

lemma read_word_goes_on:
  assumes len: "length (buf self) = 10"
    and n: "n < 9"
    and fails: "\<forall>i<Suc n. read_fails cmd (bus_replies w !! i)"
  shows "\<exists>k. n + 2 \<le> k \<and> k \<le> 10 \<and>
           snd (snd (read_word self cmd w)) =
             after_transfers k (WriteThenRead (i2c_device self) [cmd] 4) w"
proof -
  let ?ev = "WriteThenRead (i2c_device self) [cmd] 4"
  let ?s = "self\<lparr>buf := with_header cmd (buf self)\<rparr>"
  have h: "hdr cmd (buf ?s)" using len by (simp add: hdr_with_header)
  have f: "\<forall>i<length [0..<Suc n]. read_fails cmd (bus_replies w !! i)"
    using fails by simp
  have nin: "9 \<notin> set [0..<Suc n]" using n by simp
  obtain s' where s': "hdr cmd (buf s')" "i2c_device s' = i2c_device self"
    "read_retry ([0..<Suc n] @ [Suc n..<10]) ?s w =
       read_retry [Suc n..<10] s' (after_transfers (length [0..<Suc n]) ?ev w)"
    using read_retry_skip[OF h f nin, of "[Suc n..<10]"] by auto
  have l: "length [Suc n..<10] = 9 - n" "[Suc n..<10] \<noteq> []" using n by simp_all
  obtain j where j: "j \<le> length [Suc n..<10]" "[Suc n..<10] = [] \<or> 1 \<le> j"
    "snd (snd (read_retry [Suc n..<10] s' (after_transfers (Suc n) ?ev w))) =
       after_transfers j ?ev (after_transfers (Suc n) ?ev w)"
    using read_retry_bound[OF s'(1), of "[Suc n..<10]" "after_transfers (Suc n) ?ev w"]
    unfolding s'(2) by blast
  have r: "read_word self cmd w = read_retry [Suc n..<10] s' (after_transfers (Suc n) ?ev w)"
    using s'(3)
    by (simp only: read_word_unfold[OF len] range10_split_after[OF n] length_upt diff_zero)
  have "snd (snd (read_word self cmd w)) = after_transfers (Suc n + j) ?ev w"
    unfolding r j(3) after_transfers_add ..
  moreover have "n + 2 \<le> Suc n + j" "Suc n + j \<le> 10"
    using j(1,2) l n by simp_all
  ultimately show ?thesis by blast
qed

lemma spec_crc_3700: "spec_crc8 [0x16, 0x09, 0x17, 0x74, 0x0E] = 0xB7"
proof -
  have "uint (spec_crc8 [0x16, 0x09, 0x17, 0x74, 0x0E]) = uint (0xB7 :: byte)"
    using crc_3700 unfolding generate_crc_uint by simp
  then show ?thesis by (simp only: word_uint_eq_iff)
qed

section \<open>The claims\<close>

text \<open>
  Claim C1.  Let the first \<open>n\<close> attempts of a read fail (the transfer raises
  \<^verbatim>\<open>OSError\<close>, or the response carries a byte that is not the CRC-8 of its frame), and
  let attempt \<open>n + 1\<close> complete with the bytes \<open>d0 d1 d2 d3\<close>, for any \<open>n\<close> up to 9.
  The code checks the sixth buffer byte \<open>d2\<close> against the CRC-8 of the five leading
  bytes, the header \<open>0x16, command, 0x17\<close> and the data \<open>d0, d1\<close>; the CRC-8 is the one
  of the specification, on an 8-bit accumulator.  If they are equal the read returns
  \<open>d0 + 256 * d1\<close> (the first byte is the low one) after exactly \<open>n + 1\<close> transfers,
  with the seven bytes in the buffer.  If they differ the response is not accepted: at
  the tenth attempt the read raises the CRC failure, and before the tenth attempt the
  response counts as one more failed attempt and at least one more transfer is made.
\<close>

theorem read_word_crc_and_value:
  assumes "length (buf self) = 10" and "n \<le> 9"
    and "\<forall>i<n. spec_read_fails command (bus_replies w !! i)"
    and "bus_replies w !! n = Ack d0 d1 d2 d3"
  shows "generate_crc [0x16, command, 0x17, d0, d1] =
           uint (spec_crc8 [0x16, command, 0x17, d0, d1])
       \<and> (spec_crc8 [0x16, command, 0x17, d0, d1] = d2 \<longrightarrow>
            read_word self command w =
              (Inr (Some (uint d0 + 256 * uint d1)),
               self\<lparr>buf := [0x16, command, 0x17, d0, d1, d2, d3] @ drop 7 (buf self)\<rparr>,
               after_transfers (Suc n) (WriteThenRead (i2c_device self) [command] 4) w))
       \<and> (spec_crc8 [0x16, command, 0x17, d0, d1] \<noteq> d2 \<and> n = 9 \<longrightarrow>
            read_word self command w =
              (Inl (OSError ''CRC failure on reading word''),
               self\<lparr>buf := [0x16, command, 0x17, d0, d1, d2, d3] @ drop 7 (buf self)\<rparr>,
               after_transfers 10 (WriteThenRead (i2c_device self) [command] 4) w))
       \<and> (spec_crc8 [0x16, command, 0x17, d0, d1] \<noteq> d2 \<and> n < 9 \<longrightarrow>
            spec_read_fails command (bus_replies w !! n) \<and>
            (\<exists>k. n + 2 \<le> k \<and> k \<le> 10 \<and>
               snd (snd (read_word self command w)) =
                 after_transfers k (WriteThenRead (i2c_device self) [command] 4) w))"
proof -
  let ?crc = "spec_crc8 [0x16, command, 0x17, d0, d1]"
  let ?ev = "WriteThenRead (i2c_device self) [command] 4"
  let ?b = "self\<lparr>buf := [0x16, command, 0x17, d0, d1, d2, d3] @ drop 7 (buf self)\<rparr>"
  have f: "\<forall>i<n. read_fails command (bus_replies w !! i)"
    using assms(3) by (simp add: spec_read_fails_eq)
  have good: "read_word self command w =
                (Inr (Some (uint d0 + 256 * uint d1)), ?b, after_transfers (Suc n) ?ev w)"
    if c: "?crc = d2"
  proof -
    have o: "read_outcome command (Ack d0 d1 d2 d3) = Inr (uint d0 + 256 * uint d1)"
      using c by (simp add: read_outcome_def crc_matches_iff little_endian)
    have l: "n = 9 \<or> \<not> read_fails command (bus_replies w !! n)"
      by (simp add: assms(4) read_fails_def o)
    show ?thesis
      using read_word_at[OF assms(1,2) f assms(4) l] by (simp add: o)
  qed
  have bad: "read_outcome command (Ack d0 d1 d2 d3) =
               Inl (OSError ''CRC failure on reading word'')"
    if c: "?crc \<noteq> d2"
    using c by (simp add: read_outcome_def crc_matches_iff)
  have last: "read_word self command w =
                (Inl (OSError ''CRC failure on reading word''), ?b, after_transfers 10 ?ev w)"
    if c: "?crc \<noteq> d2" and n9: "n = 9"
  proof -
    have l: "n = 9 \<or> \<not> read_fails command (bus_replies w !! n)" using n9 by simp
    show ?thesis
      using read_word_at[OF assms(1,2) f assms(4) l] n9 by (simp add: bad[OF c])
  qed
  have more: "spec_read_fails command (bus_replies w !! n) \<and>
              (\<exists>k. n + 2 \<le> k \<and> k \<le> 10 \<and>
                 snd (snd (read_word self command w)) = after_transfers k ?ev w)"
    if c: "?crc \<noteq> d2" and n8: "n < 9"
  proof -
    have s: "spec_read_fails command (bus_replies w !! n)"
      using c by (simp add: assms(4) spec_read_fails_def)
    have "\<forall>i<Suc n. read_fails command (bus_replies w !! i)"
      using f s by (simp add: less_Suc_eq spec_read_fails_eq)
    then show ?thesis
      using read_word_goes_on[OF assms(1) n8] s by blast
  qed
  show ?thesis
    using good last more generate_crc_uint[of "[0x16, command, 0x17, d0, d1]"] by blast
qed

theorem read_word_crc_and_value_witness:
  "read_word dev0 0x09 (bus_world (eio ## corrupt_3700 ## sconst reading_3700)) =
     (Inr (Some 3700),
      dev0\<lparr>buf := [0x16, 0x09, 0x17, 0x74, 0x0E, 0xB7, 0, 0, 0, 0]\<rparr>,
      \<lparr>probe_replies = sconst None, bus_replies = sconst reading_3700,
       log = [WriteThenRead 0x0B [0x09] 4, WriteThenRead 0x0B [0x09] 4,
              WriteThenRead 0x0B [0x09] 4]\<rparr>)
 \<and> read_word dev0 0x09 (bus_world (replicate 9 eio @- sconst corrupt_3700)) =
     (Inl (OSError ''CRC failure on reading word''),
      dev0\<lparr>buf := [0x16, 0x09, 0x17, 0x74, 0x0E, 0xB6, 0, 0, 0, 0]\<rparr>,
      \<lparr>probe_replies = sconst None, bus_replies = sconst corrupt_3700,
       log = replicate 10 (WriteThenRead 0x0B [0x09] 4)\<rparr>)
 \<and> (\<exists>k. 2 \<le> k \<and> k \<le> 10 \<and>
        snd (snd (read_word dev0 0x09 (bus_world (sconst corrupt_3700)))) =
          after_transfers k (WriteThenRead 0x0B [0x09] 4) (bus_world (sconst corrupt_3700)))"
proof -
  let ?w1 = "bus_world (eio ## corrupt_3700 ## sconst reading_3700)"
  let ?w2 = "bus_world (replicate 9 eio @- sconst corrupt_3700)"
  let ?w3 = "bus_world (sconst corrupt_3700)"
  have d: "drop 7 (buf dev0) = [0, 0, 0]" by (simp add: dev0_def eval_nat_numeral)
  have bad: "spec_crc8 [0x16, 0x09, 0x17, 0x74, 0x0E] \<noteq> 0xB6"
    by (simp add: spec_crc_3700)
  have f1: "\<forall>i<2. spec_read_fails 0x09 (bus_replies ?w1 !! i)"
  proof (intro allI impI)
    fix i :: nat
    assume "i < 2"
    then have "i = 0 \<or> i = 1" by arith
    then show "spec_read_fails 0x09 (bus_replies ?w1 !! i)"
      by (auto simp: bus_world_def spec_read_fails_eq read_fails_eio read_fails_corrupt)
  qed
  have a1: "bus_replies ?w1 !! 2 = Ack 0x74 0x0E 0xB7 0"
    by (simp add: bus_world_def reading_3700_def numeral_2_eq_2)
  have f2: "\<forall>i<9. spec_read_fails 0x09 (bus_replies ?w2 !! i)"
    by (simp add: bus_world_def spec_read_fails_eq read_fails_eio)
  have a2: "bus_replies ?w2 !! 9 = Ack 0x74 0x0E 0xB6 0"
    by (simp add: bus_world_def corrupt_3700_def)
  have f3: "\<forall>i<0. spec_read_fails 0x09 (bus_replies ?w3 !! i)" by simp
  have a3: "bus_replies ?w3 !! 0 = Ack 0x74 0x0E 0xB6 0"
    by (simp add: bus_world_def corrupt_3700_def)
  have s1: "sdrop 3 (eio ## corrupt_3700 ## sconst reading_3700) = sconst reading_3700"
    by (simp add: numeral_3_eq_3)
  have s2: "sdrop 10 (replicate 9 eio @- sconst corrupt_3700) = sconst corrupt_3700"
    using sdrop_shift[of 10 "replicate 9 eio" "sconst corrupt_3700"] by simp
  have three: "replicate 3 x = [x, x, x]" for x :: event by (simp add: numeral_3_eq_3)
  have c1: "read_word dev0 0x09 ?w1 =
     (Inr (Some (uint (0x74 :: byte) + 256 * uint (0x0E :: byte))),
      dev0\<lparr>buf := [0x16, 0x09, 0x17, 0x74, 0x0E, 0xB7, 0] @ drop 7 (buf dev0)\<rparr>,
      after_transfers (Suc 2) (WriteThenRead (i2c_device dev0) [0x09] 4) ?w1)"
    using read_word_crc_and_value[OF dev0_length _ f1 a1] spec_crc_3700 by simp
  have c2: "read_word dev0 0x09 ?w2 =
     (Inl (OSError ''CRC failure on reading word''),
      dev0\<lparr>buf := [0x16, 0x09, 0x17, 0x74, 0x0E, 0xB6, 0] @ drop 7 (buf dev0)\<rparr>,
      after_transfers 10 (WriteThenRead (i2c_device dev0) [0x09] 4) ?w2)"
    using read_word_crc_and_value[OF dev0_length _ f2 a2] bad by simp
  have c3: "\<exists>k. 2 \<le> k \<and> k \<le> 10 \<and>
        snd (snd (read_word dev0 0x09 ?w3)) =
          after_transfers k (WriteThenRead 0x0B [0x09] 4) ?w3"
    using read_word_crc_and_value[OF dev0_length _ f3 a3] bad
    by (auto simp: dev0_device numeral_2_eq_2)
  have c12: "read_word dev0 0x09 ?w1 =
     (Inr (Some 3700),
      dev0\<lparr>buf := [0x16, 0x09, 0x17, 0x74, 0x0E, 0xB7, 0, 0, 0, 0]\<rparr>,
      \<lparr>probe_replies = sconst None, bus_replies = sconst reading_3700,
       log = [WriteThenRead 0x0B [0x09] 4, WriteThenRead 0x0B [0x09] 4,
              WriteThenRead 0x0B [0x09] 4]\<rparr>)
   \<and> read_word dev0 0x09 ?w2 =
     (Inl (OSError ''CRC failure on reading word''),
      dev0\<lparr>buf := [0x16, 0x09, 0x17, 0x74, 0x0E, 0xB6, 0, 0, 0, 0]\<rparr>,
      \<lparr>probe_replies = sconst None, bus_replies = sconst corrupt_3700,
       log = replicate 10 (WriteThenRead 0x0B [0x09] 4)\<rparr>)"
    unfolding c1 c2
    by (simp add: d dev0_device after_transfers_def bus_world_def s1 s2 three
          del: sdrop.simps replicate.simps)
  show ?thesis
    using c12 c3 by (intro conjI) (simp_all only: simp_thms)
qed

text \<open>
  Claim C2.  A read or a write makes at least one and at most ten transfers, whatever
  the bus replies.  When the first nine attempts fail (the transfer raises
  \<^verbatim>\<open>OSError\<close>, or for a read the CRC does not match), the tenth attempt decides: if it
  succeeds the operation succeeds, if it fails its error is raised, and in both cases
  exactly ten transfers have been made.
\<close>

theorem retry_at_most_ten:
  assumes "length (buf self) = 10"
  shows "(\<exists>k. 1 \<le> k \<and> k \<le> 10 \<and>
            snd (snd (read_word self cmd w)) = after_transfers k (WriteThenRead (i2c_device self) [cmd] 4) w)
       \<and> (\<exists>k. 1 \<le> k \<and> k \<le> 10 \<and>
            snd (snd (write_word self cmd data w)) =
              after_transfers k (Write (i2c_device self) (tl (write_frame cmd data))) w)
       \<and> ((\<forall>i<9. read_fails cmd (bus_replies w !! i)) \<and>
            read_outcome cmd (bus_replies w !! 9) = Inr v \<longrightarrow>
            fst (read_word self cmd w) = Inr (Some v) \<and>
            snd (snd (read_word self cmd w)) = after_transfers 10 (WriteThenRead (i2c_device self) [cmd] 4) w)
       \<and> ((\<forall>i<9. read_fails cmd (bus_replies w !! i)) \<and>
            read_outcome cmd (bus_replies w !! 9) = Inl e \<longrightarrow>
            fst (read_word self cmd w) = Inl e \<and>
            snd (snd (read_word self cmd w)) = after_transfers 10 (WriteThenRead (i2c_device self) [cmd] 4) w)
       \<and> ((\<forall>i<9. write_fails (bus_replies w !! i)) \<and>
            write_outcome (bus_replies w !! 9) = Inr () \<longrightarrow>
            fst (write_word self cmd data w) = Inr () \<and>
            snd (snd (write_word self cmd data w)) =
              after_transfers 10 (Write (i2c_device self) (tl (write_frame cmd data))) w)
       \<and> ((\<forall>i<9. write_fails (bus_replies w !! i)) \<and>
            write_outcome (bus_replies w !! 9) = Inl e \<longrightarrow>
            fst (write_word self cmd data w) = Inl e \<and>
            snd (snd (write_word self cmd data w)) =
              after_transfers 10 (Write (i2c_device self) (tl (write_frame cmd data))) w)"
proof -
  let ?rd = "WriteThenRead (i2c_device self) [cmd] 4"
  let ?wr = "Write (i2c_device self) (tl (write_frame cmd data))"
  let ?s = "self\<lparr>buf := with_header cmd (buf self)\<rparr>"
  let ?t = "self\<lparr>buf := write_frame cmd data @ drop 5 (buf self)\<rparr>"
  have l10: "length [0..<10::nat] = 10" and ne: "[0..<10::nat] \<noteq> []" by simp_all
  have ds: "i2c_device ?s = i2c_device self" and dt: "i2c_device ?t = i2c_device self"
    by simp_all
  have h: "hdr cmd (buf ?s)" using assms by (simp add: hdr_with_header)
  have t: "take 4 (drop 1 (buf ?t)) = tl (write_frame cmd data)"
    by (simp add: write_frame_def)
  obtain k where k: "k \<le> length [0..<10::nat]" "[0..<10::nat] = [] \<or> 1 \<le> k"
    "snd (snd (read_retry [0..<10] ?s w)) = after_transfers k ?rd w"
    using read_retry_bound[OF h, of "[0..<10]" w] unfolding ds by blast
  have rb: "\<exists>k. 1 \<le> k \<and> k \<le> 10 \<and> snd (snd (read_word self cmd w)) = after_transfers k ?rd w"
    using k ne unfolding l10 read_word_unfold[OF assms] by blast
  obtain j where j: "j \<le> length [0..<10::nat]" "[0..<10::nat] = [] \<or> 1 \<le> j"
    "snd (snd (write_retry [0..<10] ?t w)) = after_transfers j ?wr w"
    using write_retry_bound[OF t, of "[0..<10]" w] unfolding dt by blast
  have wb: "\<exists>k. 1 \<le> k \<and> k \<le> 10 \<and>
              snd (snd (write_word self cmd data w)) = after_transfers k ?wr w"
    using j ne unfolding l10 write_word_unfold[OF assms] by blast
  have r: "(\<forall>i<9. read_fails cmd (bus_replies w !! i)) \<Longrightarrow>
             fst (read_word self cmd w) = map_sum id Some (read_outcome cmd (bus_replies w !! 9))
           \<and> snd (snd (read_word self cmd w)) = after_transfers 10 ?rd w"
    using read_word_after_failures[OF assms, of 9 cmd w] by simp
  have w: "(\<forall>i<9. write_fails (bus_replies w !! i)) \<Longrightarrow>
             write_word self cmd data w = (write_outcome (bus_replies w !! 9), ?t,
               after_transfers 10 ?wr w)"
    using write_word_after_failures[OF assms, of 9 w cmd data] by simp
  have r1: "(\<forall>i<9. read_fails cmd (bus_replies w !! i)) \<and>
            read_outcome cmd (bus_replies w !! 9) = Inr v \<longrightarrow>
            fst (read_word self cmd w) = Inr (Some v) \<and>
            snd (snd (read_word self cmd w)) = after_transfers 10 ?rd w"
    using r by simp
  have r2: "(\<forall>i<9. read_fails cmd (bus_replies w !! i)) \<and>
            read_outcome cmd (bus_replies w !! 9) = Inl e \<longrightarrow>
            fst (read_word self cmd w) = Inl e \<and>
            snd (snd (read_word self cmd w)) = after_transfers 10 ?rd w"
    using r by simp
  have w1: "(\<forall>i<9. write_fails (bus_replies w !! i)) \<and>
            write_outcome (bus_replies w !! 9) = Inr () \<longrightarrow>
            fst (write_word self cmd data w) = Inr () \<and>
            snd (snd (write_word self cmd data w)) = after_transfers 10 ?wr w"
    using w by simp
  have w2: "(\<forall>i<9. write_fails (bus_replies w !! i)) \<and>
            write_outcome (bus_replies w !! 9) = Inl e \<longrightarrow>
            fst (write_word self cmd data w) = Inl e \<and>
            snd (snd (write_word self cmd data w)) = after_transfers 10 ?wr w"
    using w by simp
  show ?thesis
    using rb wb r1 r2 w1 w2 by (intro conjI)
qed

theorem retry_at_most_ten_witness:
  "fst (read_word dev0 0x09 (bus_world nine_failures_then_3700)) = Inr (Some 3700)
 \<and> log (snd (snd (read_word dev0 0x09 (bus_world nine_failures_then_3700)))) =
     replicate 10 (WriteThenRead 0x0B [0x09] 4)
 \<and> fst (read_word dev0 0x09 (bus_world (sconst eio))) =
     Inl (OSError ''[Errno 5] Input/output error'')
 \<and> log (snd (snd (read_word dev0 0x09 (bus_world (sconst eio))))) =
     replicate 10 (WriteThenRead 0x0B [0x09] 4)
 \<and> fst (write_word dev0 0x15 1 (bus_world (replicate 9 eio @- sconst reading_3700))) = Inr ()
 \<and> log (snd (snd (write_word dev0 0x15 1 (bus_world (replicate 9 eio @- sconst reading_3700))))) =
     replicate 10 (Write 0x0B (tl (write_frame 0x15 1)))
 \<and> fst (write_word dev0 0x15 1 (bus_world (sconst eio))) =
     Inl (OSError ''[Errno 5] Input/output error'')
 \<and> log (snd (snd (write_word dev0 0x15 1 (bus_world (sconst eio))))) =
     replicate 10 (Write 0x0B (tl (write_frame 0x15 1)))"
proof -
  have len: "length (buf dev0) = 10" by (simp add: dev0_def)
  have a: "\<forall>i<9. read_fails 0x09 (bus_replies (bus_world nine_failures_then_3700) !! i)"
    using nine_failures_read by (simp add: bus_world_def)
  have a': "read_outcome 0x09 (bus_replies (bus_world nine_failures_then_3700) !! 9) = Inr 3700"
    by (simp add: bus_world_def nine_failures_tenth read_outcome_reading)
  have b: "\<forall>i<9. read_fails 0x09 (bus_replies (bus_world (sconst eio)) !! i)"
    by (simp add: bus_world_def read_fails_eio)
  have b': "read_outcome 0x09 (bus_replies (bus_world (sconst eio)) !! 9) =
              Inl (OSError ''[Errno 5] Input/output error'')"
    by (simp add: bus_world_def read_outcome_def eio_def)
  have c: "\<forall>i<9. write_fails (bus_replies (bus_world (replicate 9 eio @- sconst reading_3700)) !! i)"
    by (simp add: bus_world_def write_fails_eio)
  have c': "write_outcome (bus_replies (bus_world (replicate 9 eio @- sconst reading_3700)) !! 9) = Inr ()"
    by (simp add: bus_world_def write_outcome_def reading_3700_def)
  have d: "\<forall>i<9. write_fails (bus_replies (bus_world (sconst eio)) !! i)"
    by (simp add: bus_world_def write_fails_eio)
  have d': "write_outcome (bus_replies (bus_world (sconst eio)) !! 9) =
              Inl (OSError ''[Errno 5] Input/output error'')"
    by (simp add: bus_world_def write_outcome_def eio_def)
  note t = retry_at_most_ten[OF len]
  show ?thesis
    using t[of "0x09" "bus_world nine_failures_then_3700" 0 3700 undefined] a a'
      t[of "0x09" "bus_world (sconst eio)" 0 0 "OSError ''[Errno 5] Input/output error''"] b b'
      t[of "0x15" "bus_world (replicate 9 eio @- sconst reading_3700)" 1 0 undefined] c c'
      t[of "0x15" "bus_world (sconst eio)" 1 0 "OSError ''[Errno 5] Input/output error''"] d d'
    by (simp add: log_after_transfers dev0_device)
qed

text \<open>
  Claim C3.  The CRC is a function of its input bytes alone.  It computes what the
  specification describes on an 8-bit accumulator (each byte is XORed in, followed by
  eight rounds of shift left, with XOR 0x07 when the high bit was set); the masking
  with 0xFF of the integer code is the 8-bit wrap-around.  The CRC of the empty
  sequence is 0, and every CRC is a byte.
\<close>

theorem generate_crc_is_crc8:
  "generate_crc data = uint (spec_crc8 data) \<and> generate_crc [] = 0
   \<and> 0 \<le> generate_crc data \<and> generate_crc data < 256"
proof -
  have e: "generate_crc data = uint (spec_crc8 data)"
    using fold_crc_uint[of data 0] by (simp add: generate_crc_def spec_crc8_def)
  have "uint (spec_crc8 data) < 256" using uint_lt2p[of "spec_crc8 data"] by simp
  then show ?thesis using e by (simp add: generate_crc_def)
qed



text \<open>
  Claim C5, as the code has it.  On a bus where every transfer raises \<^verbatim>\<open>OSError\<close>,
  three getters return \<^verbatim>\<open>None\<close>: \<open>cell_voltage\<close>, \<open>cell_percent\<close> and
  \<open>cell_temperature\<close>.  Every other accessor raises the error of the bus: the eight
  other getters, \<open>init_RSOC\<close>, and the setters when their value passes validation.
\<close>

theorem three_getters_swallow_bus_errors:
  assumes "length (buf self) = 10" and "bus_replies w = sconst (Nack (OSError m))"
  shows "fst (cell_voltage self w) = Inr None
       \<and> fst (cell_percent self w) = Inr None
       \<and> fst (cell_temperature self w) = Inr None
       \<and> fst (ic_version self w) = Inl (OSError m)
       \<and> fst (power_mode self w) = Inl (OSError m)
       \<and> fst (battery_profile self w) = Inl (OSError m)
       \<and> fst (pack_size self w) = Inl (OSError m)
       \<and> fst (thermistor_bconstant self w) = Inl (OSError m)
       \<and> fst (thermistor_enable self w) = Inl (OSError m)
       \<and> fst (low_voltage_alarm_percent self w) = Inl (OSError m)
       \<and> fst (low_voltage_alarm self w) = Inl (OSError m)
       \<and> fst (init_RSOC self w) = Inl (OSError m)
       \<and> fst (set_cell_temperature self celsius w) = Inl (OSError m)
       \<and> fst (set_thermistor_bconstant self bconstant w) = Inl (OSError m)
       \<and> fst (set_low_voltage_alarm self voltage w) = Inl (OSError m)
       \<and> fst (set_thermistor_enable self (PyBool status) w) = Inl (OSError m)
       \<and> (is_valid PowerMode mode \<longrightarrow> fst (set_power_mode self mode w) = Inl (OSError m))
       \<and> (is_valid PackSize sz \<longrightarrow> fst (set_pack_size self sz w) = Inl (OSError m))
       \<and> (List.member [0, 1] profile \<longrightarrow>
            fst (set_battery_profile self profile w) = Inl (OSError m))
       \<and> (0 \<le> percent \<and> percent \<le> 100 \<longrightarrow>
            fst (set_low_voltage_alarm_percent self percent w) = Inl (OSError m))"
proof -
  note r = read_word_bus_down[OF assms]
  note w = write_word_bus_down[OF assms]
  have v: "fst (cell_voltage self w) = Inr None"
    unfolding cell_voltage_def by (rule swallows_OSError) (rule r)
  have p: "fst (cell_percent self w) = Inr None"
    unfolding cell_percent_def by (rule swallows_OSError) (rule r)
  have t: "fst (cell_temperature self w) = Inr None"
    unfolding cell_temperature_def by (rule swallows_OSError) (rule r)
  have ct: "fst (set_cell_temperature self celsius w) = Inl (OSError m)"
    using r[of LC709203F_CMD_STATUSBIT]
    by (cases "read_word self LC709203F_CMD_STATUSBIT w")
       (simp add: set_cell_temperature_def thermistor_enable_def)
  show ?thesis
    using v p t ct
    by (simp add: r w ic_version_def power_mode_def battery_profile_def pack_size_def
          thermistor_bconstant_def thermistor_enable_def low_voltage_alarm_percent_def
          low_voltage_alarm_def init_RSOC_def set_thermistor_bconstant_def
          set_low_voltage_alarm_def set_thermistor_enable_def set_power_mode_def
          set_pack_size_def set_battery_profile_def set_low_voltage_alarm_percent_def)
qed

text \<open>
  Against claim C5 as stated: on the bus that always fails, the \<open>cell_temperature\<close>
  getter returns \<^verbatim>\<open>None\<close> where \<open>ic_version\<close> raises.
\<close>

theorem cell_temperature_swallows_bus_error:
  "fst (cell_temperature dev0 (bus_world (sconst eio))) = Inr None
 \<and> fst (ic_version dev0 (bus_world (sconst eio))) = Inl (OSError ''[Errno 5] Input/output error'')"
proof -
  have len: "length (buf dev0) = 10" by (simp add: dev0_def)
  have b: "bus_replies (bus_world (sconst eio)) = sconst (Nack (OSError ''[Errno 5] Input/output error''))"
    by (simp add: bus_world_def eio_def)
  have "fst (cell_temperature dev0 (bus_world (sconst eio))) = Inr None"
    unfolding cell_temperature_def by (rule swallows_OSError) (rule read_word_bus_down[OF len b])
  then show ?thesis
    by (simp add: ic_version_def read_word_bus_down[OF len b])
qed

theorem three_getters_swallow_bus_errors_witness:
  "fst (cell_voltage dev0 (bus_world (sconst eio))) = Inr None
 \<and> fst (cell_percent dev0 (bus_world (sconst eio))) = Inr None
 \<and> fst (cell_temperature dev0 (bus_world (sconst eio))) = Inr None
 \<and> fst (ic_version dev0 (bus_world (sconst eio))) = Inl (OSError ''[Errno 5] Input/output error'')
 \<and> fst (set_power_mode dev0 1 (bus_world (sconst eio))) = Inl (OSError ''[Errno 5] Input/output error'')
 \<and> fst (set_pack_size dev0 0x10 (bus_world (sconst eio))) = Inl (OSError ''[Errno 5] Input/output error'')
 \<and> fst (set_battery_profile dev0 1 (bus_world (sconst eio))) = Inl (OSError ''[Errno 5] Input/output error'')
 \<and> fst (set_low_voltage_alarm_percent dev0 20 (bus_world (sconst eio))) = Inl (OSError ''[Errno 5] Input/output error'')"
proof -
  have len: "length (buf dev0) = 10" by (simp add: dev0_def)
  have b: "bus_replies (bus_world (sconst eio)) = sconst (Nack (OSError ''[Errno 5] Input/output error''))"
    by (simp add: bus_world_def eio_def)
  have pm: "is_valid PowerMode 1"
    by (simp add: is_valid_def PowerMode_def add_values_def add_value_def)
  have ps: "is_valid PackSize 0x10"
    by (simp add: is_valid_def PackSize_def add_values_def add_value_def)
  have bp: "List.member [0, 1] (1::int)" by simp
  have pc: "(0::int) \<le> 20 \<and> (20::int) \<le> 100" by simp
  show ?thesis
    using three_getters_swallow_bus_errors[OF len b, where mode = 1 and sz = "0x10"
        and profile = 1 and percent = 20] pm ps bp pc
    by simp
qed

text \<open>
  Claim C6, as the code has it.  Whatever address the device was made with, a write
  leaves the frame \<open>[0x16, command, low byte, high byte, CRC of these four]\<close> in the
  buffer and sends its last four bytes, and a read builds the header
  \<open>[0x16, command, 0x17]\<close> and checks the CRC of the response over it.  The address byte
  of the frame is the constant \<open>LC709203F_I2CADDR_DEFAULT * 2 = 0x16\<close>; the address of
  the device only says where the transfers go.
\<close>

theorem framing_uses_default_address:
  assumes "length (buf self) = 10"
  shows "take 5 (buf (fst (snd (write_word self cmd data w)))) =
           [0x16, cmd, word_of_int (data AND 0xFF), word_of_int (drop_bit 8 data AND 0xFF),
            word_of_int (generate_crc
              [0x16, cmd, word_of_int (data AND 0xFF), word_of_int (drop_bit 8 data AND 0xFF)])]
       \<and> (\<exists>k. 1 \<le> k \<and> k \<le> 10 \<and>
            log (snd (snd (write_word self cmd data w))) =
              log w @ replicate k
                (Write (i2c_device self)
                   [cmd, word_of_int (data AND 0xFF), word_of_int (drop_bit 8 data AND 0xFF),
                    word_of_int (generate_crc
                      [0x16, cmd, word_of_int (data AND 0xFF),
                       word_of_int (drop_bit 8 data AND 0xFF)])]))
       \<and> take 3 (buf (fst (snd (read_word self cmd w)))) = [0x16, cmd, 0x17]
       \<and> (\<exists>k. 1 \<le> k \<and> k \<le> 10 \<and>
            log (snd (snd (read_word self cmd w))) =
              log w @ replicate k (WriteThenRead (i2c_device self) [cmd] 4))
       \<and> (shd (bus_replies w) = Ack d0 d1 d2 d3 \<and>
            generate_crc [0x16, cmd, 0x17, d0, d1] = uint d2 \<longrightarrow>
            fst (read_word self cmd w) = Inr (Some (uint d0 + 256 * uint d1)))"
proof -
  let ?s = "self\<lparr>buf := with_header cmd (buf self)\<rparr>"
  let ?t = "self\<lparr>buf := write_frame cmd data @ drop 5 (buf self)\<rparr>"
  have l10: "length [0..<10::nat] = 10" and ne: "[0..<10::nat] \<noteq> []" by simp_all
  have ds: "i2c_device ?s = i2c_device self" and dt: "i2c_device ?t = i2c_device self"
    by simp_all
  have h: "hdr cmd (buf ?s)" using assms by (simp add: hdr_with_header)
  have t: "take 4 (drop 1 (buf ?t)) = tl (write_frame cmd data)"
    by (simp add: write_frame_def)
  have w1: "take 5 (buf (fst (snd (write_word self cmd data w)))) = write_frame cmd data"
    unfolding write_word_unfold[OF assms] write_retry_self by (simp add: write_frame_def)
  obtain j where j: "j \<le> length [0..<10::nat]" "[0..<10::nat] = [] \<or> 1 \<le> j"
    "snd (snd (write_retry [0..<10] ?t w)) =
       after_transfers j (Write (i2c_device self) (tl (write_frame cmd data))) w"
    using write_retry_bound[OF t, of "[0..<10]" w] unfolding dt by blast
  have w2: "\<exists>k. 1 \<le> k \<and> k \<le> 10 \<and>
            log (snd (snd (write_word self cmd data w))) =
              log w @ replicate k (Write (i2c_device self) (tl (write_frame cmd data)))"
    using j ne unfolding l10 write_word_unfold[OF assms]
    by (intro exI[of _ j]) (simp add: after_transfers_def)
  have r1: "take 3 (buf (fst (snd (read_word self cmd w)))) = [0x16, cmd, 0x17]"
    unfolding read_word_unfold[OF assms] by (rule hdr_take3) (rule read_retry_hdr[OF h])
  obtain k where k: "k \<le> length [0..<10::nat]" "[0..<10::nat] = [] \<or> 1 \<le> k"
    "snd (snd (read_retry [0..<10] ?s w)) =
       after_transfers k (WriteThenRead (i2c_device self) [cmd] 4) w"
    using read_retry_bound[OF h, of "[0..<10]" w] unfolding ds by blast
  have r2: "\<exists>k. 1 \<le> k \<and> k \<le> 10 \<and>
            log (snd (snd (read_word self cmd w))) =
              log w @ replicate k (WriteThenRead (i2c_device self) [cmd] 4)"
    using k ne unfolding l10 read_word_unfold[OF assms]
    by (intro exI[of _ k]) (simp add: after_transfers_def)
  have r3: "shd (bus_replies w) = Ack d0 d1 d2 d3 \<and>
            generate_crc [0x16, cmd, 0x17, d0, d1] = uint d2 \<longrightarrow>
            fst (read_word self cmd w) = Inr (Some (uint d0 + 256 * uint d1))"
  proof
    assume a: "shd (bus_replies w) = Ack d0 d1 d2 d3 \<and>
            generate_crc [0x16, cmd, 0x17, d0, d1] = uint d2"
    then have o: "read_outcome cmd (bus_replies w !! 0) = Inr (uint d0 + 256 * uint d1)"
      by (simp add: read_outcome_def little_endian)
    then have nf: "0 = (9::nat) \<or> \<not> read_fails cmd (bus_replies w !! 0)"
      by (simp add: read_fails_def)
    have f: "\<forall>i<0. read_fails cmd (bus_replies w !! i)" by simp
    show "fst (read_word self cmd w) = Inr (Some (uint d0 + 256 * uint d1))"
      using read_word_after_failures[OF assms _ f nf] o by simp
  qed
  show ?thesis
    using w1 w2 r1 r2 r3 unfolding write_frame_def by simp
qed

theorem framing_uses_default_address_witness:
  "take 5 (buf (fst (snd (write_word dev_0C 0x14 3000 (bus_world (sconst reading_3700)))))) =
     [0x16, 0x14, 0xB8, 0x0B, 0xCC]
 \<and> take 3 (buf (fst (snd (read_word dev_0C 0x09 (bus_world (sconst reading_3700)))))) =
     [0x16, 0x09, 0x17]
 \<and> fst (read_word dev_0C 0x09 (bus_world (sconst reading_3700))) = Inr (Some 3700)"
proof -
  have len: "length (buf dev_0C) = 10" by (simp add: dev_0C_def)
  have a: "shd (bus_replies (bus_world (sconst reading_3700))) = Ack 0x74 0x0E 0xB7 0
         \<and> generate_crc [0x16, 0x09, 0x17, 0x74, 0x0E] = uint (0xB7 :: byte)"
    by (simp add: bus_world_def reading_3700_def crc_3700)
  have lo: "word_of_int (3000 AND 0xFF) = (0xB8 :: byte)"
    and hi: "word_of_int (drop_bit 8 3000 AND 0xFF) = (0x0B :: byte)"
    by simp_all
  show ?thesis
    using framing_uses_default_address[OF len, where cmd = "0x14" and data = 3000
        and w = "bus_world (sconst reading_3700)"]
      framing_uses_default_address[OF len, where cmd = "0x09"
        and w = "bus_world (sconst reading_3700)" and ?d0.0 = "0x74" and ?d1.0 = "0x0E"
        and ?d2.0 = "0xB7" and ?d3.0 = 0] a
    unfolding lo hi crc_alarm_3000
    by simp
qed

text \<open>
  Against claim C6 as stated: a device constructed at address 0x0C frames a write of
  3000 to register 0x14 with the byte 0x16 and the CRC 0xCC of the default address,
  where the construction address would give the byte 0x18 and the CRC 0x08.
\<close>

theorem framing_ignores_construction_address:
  "fst (init 0x0C (bus_world (sconst reading_3700))) = Inr dev_0C
 \<and> i2c_device dev_0C = 0x0C
 \<and> write_word dev_0C 0x14 3000 (bus_world (sconst reading_3700)) =
     (Inr (), dev_0C\<lparr>buf := [0x16, 0x14, 0xB8, 0x0B, 0xCC, 0, 0, 0, 0, 0]\<rparr>,
      \<lparr>probe_replies = sconst None, bus_replies = sconst reading_3700,
       log = [Write 0x0C [0x14, 0xB8, 0x0B, 0xCC]]\<rparr>)
 \<and> (word_of_int (0x0C * 2) :: byte) = 0x18
 \<and> generate_crc [0x18, 0x14, 0xB8, 0x0B] = 0x08
 \<and> take 5 (buf (fst (snd (write_word dev_0C 0x14 3000 (bus_world (sconst reading_3700))))))
     \<noteq> [word_of_int (0x0C * 2), 0x14, 0xB8, 0x0B,
         word_of_int (generate_crc [word_of_int (0x0C * 2), 0x14, 0xB8, 0x0B])]"
proof -
  have d: "i2c_device dev_0C = 0x0C" by (simp add: dev_0C_def)
  show ?thesis
    by (simp add: init_at_0C write_at_0C crc_alarm_3000_at_0C d)
qed

text \<open>
  Claim C7, at 25.25 degrees with the thermistor disabled (the status register reads 0):
  the setter truncates \<open>25.25 + 273.15\<close> to 298 before it multiplies by 10, and writes
  the word 2980 (bytes 0xA4, 0x0B) to register 0x08, where \<open>(25.25 + 273.15) * 10\<close>
  is 2984.  With the thermistor enabled (the status register reads 1) the setter raises
  \<^verbatim>\<open>ValueError\<close> after the read of the status register, and writes no word.
\<close>

theorem cell_temperature_setter_truncates:
  "fst (set_cell_temperature dev0 (101 / 4) (bus_world (status_off ## sconst reading_3700))) =
     Inr ()
 \<and> log (snd (snd (set_cell_temperature dev0 (101 / 4)
                    (bus_world (status_off ## sconst reading_3700))))) =
     [WriteThenRead 0x0B [0x16] 4, Write 0x0B [0x08, 0xA4, 0x0B, 0x3F]]
 \<and> uint (0xA4 :: byte) + 256 * uint (0x0B :: byte) = 2980
 \<and> (101 / 4 + 27315 / 100) * 10 = (2984 :: rat)
 \<and> fst (set_cell_temperature dev0 (101 / 4) (bus_world (status_on ## sconst reading_3700))) =
     Inl (ValueError ''temperature can only be set in i2c mode'')
 \<and> log (snd (snd (set_cell_temperature dev0 (101 / 4)
                    (bus_world (status_on ## sconst reading_3700))))) =
     [WriteThenRead 0x0B [0x16] 4]"
proof -
  let ?r = "reading_3700"
  have b: "bus_replies (bus_world (status_off ## sconst ?r)) = status_off ## ?r ## sconst ?r"
    using sconst_unfold[of ?r] by (simp add: bus_world_def)
  have a: "acked ?r" by (simp add: acked_def reading_3700_def)
  have on: "read_outcome 0x16 (shd (bus_replies (bus_world (status_on ## sconst ?r)))) = Inr 1"
    by (simp add: bus_world_def read_outcome_status_on)
  have one: "(1::int) \<noteq> 0" by simp
  show ?thesis
    using set_cell_temperature_disabled[OF dev0_length b read_outcome_status_off a, of "101 / 4",
        unfolded truncated_kelvin frame_temperature_2980]
      set_cell_temperature_enabled[OF dev0_length on one, of "101 / 4"]
    by (simp add: dev0_device bus_world_def after_transfers_def)
qed

text \<open>
  Claim C8.  A setter given a value outside its accepted set or range returns the
  \<^verbatim>\<open>ValueError\<close> at once and leaves the object and the world as they were: no
  transfer is logged and no reply of the bus is used.  The accepted power modes are 1
  and 2, the accepted pack sizes are the eight codes of \<open>PackSize\<close>.
\<close>

theorem invalid_values_rejected_without_bus:
  "is_valid PowerMode mode = (mode = 1 \<or> mode = 2)
 \<and> is_valid PackSize sz =
     (sz = 0x08 \<or> sz = 0x0B \<or> sz = 0x0E \<or> sz = 0x10 \<or> sz = 0x19 \<or> sz = 0x2D \<or> sz = 0x30
      \<or> sz = 0x36)
 \<and> (\<not> is_valid PowerMode mode \<longrightarrow>
      set_power_mode self mode w = (Inl (ValueError ''power_mode must be a PowerMode''), self, w))
 \<and> (\<not> is_valid PackSize sz \<longrightarrow>
      set_pack_size self sz w = (Inl (ValueError ''pack_size must be a PackSize''), self, w))
 \<and> (profile \<noteq> 0 \<and> profile \<noteq> 1 \<longrightarrow>
      set_battery_profile self profile w =
        (Inl (ValueError ''battery_profile must be 0 or 1''), self, w))
 \<and> ((\<forall>b. status \<noteq> PyBool b) \<longrightarrow>
      set_thermistor_enable self status w =
        (Inl (ValueError ''thermistor_enable must be True or False''), self, w))
 \<and> (percent < 0 \<or> 100 < percent \<longrightarrow>
      set_low_voltage_alarm_percent self percent w =
        (Inl (ValueError ''alarm voltage percent must be 0-100''), self, w))"
proof -
  have t: "(\<forall>b. status \<noteq> PyBool b) \<longrightarrow>
      set_thermistor_enable self status w =
        (Inl (ValueError ''thermistor_enable must be True or False''), self, w)"
    by (cases status) (auto simp: set_thermistor_enable_def)
  have p: "percent < 0 \<or> 100 < percent \<longrightarrow>
      set_low_voltage_alarm_percent self percent w =
        (Inl (ValueError ''alarm voltage percent must be 0-100''), self, w)"
    by (auto simp: set_low_voltage_alarm_percent_def)
  have b: "profile \<noteq> 0 \<and> profile \<noteq> 1 \<longrightarrow>
      set_battery_profile self profile w =
        (Inl (ValueError ''battery_profile must be 0 or 1''), self, w)"
    by (auto simp: set_battery_profile_def)
  show ?thesis
    using t p b is_valid_PowerMode[of mode] is_valid_PackSize[of sz]
    by (simp add: set_power_mode_def set_pack_size_def)
qed

theorem invalid_values_rejected_without_bus_witness:
  "set_power_mode dev0 5 (bus_world (sconst eio)) =
     (Inl (ValueError ''power_mode must be a PowerMode''), dev0, bus_world (sconst eio))
 \<and> set_pack_size dev0 999 (bus_world (sconst eio)) =
     (Inl (ValueError ''pack_size must be a PackSize''), dev0, bus_world (sconst eio))
 \<and> set_battery_profile dev0 2 (bus_world (sconst eio)) =
     (Inl (ValueError ''battery_profile must be 0 or 1''), dev0, bus_world (sconst eio))
 \<and> set_thermistor_enable dev0 (PyInt 1) (bus_world (sconst eio)) =
     (Inl (ValueError ''thermistor_enable must be True or False''), dev0, bus_world (sconst eio))
 \<and> set_low_voltage_alarm_percent dev0 150 (bus_world (sconst eio)) =
     (Inl (ValueError ''alarm voltage percent must be 0-100''), dev0, bus_world (sconst eio))
 \<and> log (bus_world (sconst eio)) = []"
  using invalid_values_rejected_without_bus[where mode = 5 and sz = 999 and profile = 2
      and status = "PyInt 1" and percent = 150 and self = dev0 and w = "bus_world (sconst eio)"]
  by (simp add: bus_world_def)

text \<open>
  Claim C9.  Construction probes the device up to three times.  When all three probes
  raise \<^verbatim>\<open>ValueError\<close>, each is followed by a sleep, and the third error is raised;
  nothing is written to the bus.  When a probe succeeds after fewer than three failures,
  the constructor writes, in this order, \<open>OPERATE\<close> (1) to the power mode register
  0x15, the 500 mAh code 0x10 to the pack size register 0x0B, 1 to the battery profile
  register 0x12, sleeps, writes 0xAA55 to the RSOC register 0x07, and sleeps.  Each
  write may be repeated by its retry loop while the bus fails, and is made once on a bus
  that acknowledges.
\<close>

theorem construction_sequence:
  "(probe_replies w = Some (ValueError m1) ## Some (ValueError m2) ## Some (ValueError m3) ## ps
      \<longrightarrow>
      init address w =
        (Inl (ValueError m3),
         w\<lparr>probe_replies := ps,
           log := log w @ [Probe address, Sleep, Probe address, Sleep, Probe address, Sleep]\<rparr>))
 \<and> (probe_replies w = map (\<lambda>m. Some (ValueError m)) ms @- None ## ps \<and> length ms < 3
      \<and> bus_replies w = f1 @- a1 ## f2 @- a2 ## f3 @- a3 ## f4 @- a4 ## rest
      \<and> length f1 \<le> 9 \<and> length f2 \<le> 9 \<and> length f3 \<le> 9 \<and> length f4 \<le> 9
      \<and> (\<forall>r\<in>set (f1 @ f2 @ f3 @ f4). write_fails r)
      \<and> acked a1 \<and> acked a2 \<and> acked a3 \<and> acked a4
      \<longrightarrow>
      init address w =
        (Inr \<lparr>i2c_device = address, buf = [0x16, 0x07, 0x55, 0xAA, 0x17, 0, 0, 0, 0, 0]\<rparr>,
         w\<lparr>probe_replies := ps, bus_replies := rest,
           log := log w @ concat (replicate (length ms) [Probe address, Sleep])
             @ [Probe address]
             @ replicate (Suc (length f1)) (Write address [0x15, 0x01, 0x00, 0x64])
             @ replicate (Suc (length f2)) (Write address [0x0B, 0x10, 0x00, 0xA8])
             @ replicate (Suc (length f3)) (Write address [0x12, 0x01, 0x00, 0x72])
             @ [Sleep]
             @ replicate (Suc (length f4)) (Write address [0x07, 0x55, 0xAA, 0x17])
             @ [Sleep]\<rparr>))"
proof (intro conjI impI)
  assume "probe_replies w =
            Some (ValueError m1) ## Some (ValueError m2) ## Some (ValueError m3) ## ps"
  then show "init address w =
        (Inl (ValueError m3),
         w\<lparr>probe_replies := ps,
           log := log w @ [Probe address, Sleep, Probe address, Sleep, Probe address, Sleep]\<rparr>)"
    by (rule init_probe_exhausted)
next
  assume a: "probe_replies w = map (\<lambda>m. Some (ValueError m)) ms @- None ## ps \<and> length ms < 3
      \<and> bus_replies w = f1 @- a1 ## f2 @- a2 ## f3 @- a3 ## f4 @- a4 ## rest
      \<and> length f1 \<le> 9 \<and> length f2 \<le> 9 \<and> length f3 \<le> 9 \<and> length f4 \<le> 9
      \<and> (\<forall>r\<in>set (f1 @ f2 @ f3 @ f4). write_fails r)
      \<and> acked a1 \<and> acked a2 \<and> acked a3 \<and> acked a4"
  have five: "replicate 5 (0::byte) = [0, 0, 0, 0, 0]" by (simp add: eval_nat_numeral)
  have "init address w =
           (Inr \<lparr>i2c_device = address, buf = write_frame 0x07 0xAA55 @ replicate 5 0\<rparr>,
            w\<lparr>probe_replies := ps, bus_replies := rest,
              log := log w @ concat (replicate (length ms) [Probe address, Sleep])
                @ [Probe address]
                @ replicate (Suc (length f1)) (Write address (tl (write_frame 0x15 1)))
                @ replicate (Suc (length f2)) (Write address (tl (write_frame 0x0B 0x10)))
                @ replicate (Suc (length f3)) (Write address (tl (write_frame 0x12 1)))
                @ [Sleep]
                @ replicate (Suc (length f4)) (Write address (tl (write_frame 0x07 0xAA55)))
                @ [Sleep]\<rparr>)"
  proof (rule init_configures)
    show "probe_replies w = map (\<lambda>m. Some (ValueError m)) ms @- None ## ps"
      using a by blast
    show "length ms < 3" using a by blast
    show "bus_replies w = f1 @- a1 ## f2 @- a2 ## f3 @- a3 ## f4 @- a4 ## rest"
      using a by blast
    show "length f1 \<le> 9" "length f2 \<le> 9" "length f3 \<le> 9" "length f4 \<le> 9"
      using a by blast+
    have "\<forall>r\<in>set (f1 @ f2 @ f3 @ f4). write_fails r" using a by blast
    then show "\<forall>r\<in>set f1. write_fails r" "\<forall>r\<in>set f2. write_fails r"
      "\<forall>r\<in>set f3. write_fails r" "\<forall>r\<in>set f4. write_fails r"
      by simp_all
    show "acked a1" "acked a2" "acked a3" "acked a4" using a by blast+
  qed
  then show "init address w =
        (Inr \<lparr>i2c_device = address, buf = [0x16, 0x07, 0x55, 0xAA, 0x17, 0, 0, 0, 0, 0]\<rparr>,
         w\<lparr>probe_replies := ps, bus_replies := rest,
           log := log w @ concat (replicate (length ms) [Probe address, Sleep])
             @ [Probe address]
             @ replicate (Suc (length f1)) (Write address [0x15, 0x01, 0x00, 0x64])
             @ replicate (Suc (length f2)) (Write address [0x0B, 0x10, 0x00, 0xA8])
             @ replicate (Suc (length f3)) (Write address [0x12, 0x01, 0x00, 0x72])
             @ [Sleep]
             @ replicate (Suc (length f4)) (Write address [0x07, 0x55, 0xAA, 0x17])
             @ [Sleep]\<rparr>)"
    unfolding frame_power_mode frame_pack_size frame_battery_profile frame_init_rsoc five
    by (simp del: replicate.simps)
qed

theorem construction_sequence_witness:
  "init 0x0B absent_world =
     (Inl (ValueError ''No I2C device at address: 0xb''),
      \<lparr>probe_replies = sconst None, bus_replies = sconst reading_3700,
       log = [Probe 0x0B, Sleep, Probe 0x0B, Sleep, Probe 0x0B, Sleep]\<rparr>)
 \<and> init 0x0B waking_world =
     (Inr \<lparr>i2c_device = 0x0B, buf = [0x16, 0x07, 0x55, 0xAA, 0x17, 0, 0, 0, 0, 0]\<rparr>,
      \<lparr>probe_replies = sconst None, bus_replies = sconst reading_3700,
       log = [Probe 0x0B, Sleep, Probe 0x0B,
              Write 0x0B [0x15, 0x01, 0x00, 0x64], Write 0x0B [0x15, 0x01, 0x00, 0x64],
              Write 0x0B [0x0B, 0x10, 0x00, 0xA8],
              Write 0x0B [0x12, 0x01, 0x00, 0x72],
              Sleep,
              Write 0x0B [0x07, 0x55, 0xAA, 0x17],
              Sleep]\<rparr>)"
proof -
  let ?m = "''No I2C device at address: 0xb''"
  let ?r = "reading_3700"
  have p1: "probe_replies absent_world =
              Some (ValueError ?m) ## Some (ValueError ?m) ## Some (ValueError ?m) ## sconst None"
    by (simp add: absent_world_def no_device_def)
  have p2: "probe_replies waking_world =
              map (\<lambda>m. Some (ValueError m)) [?m] @- None ## sconst None"
    by (simp add: waking_world_def no_device_def sconst_unfold[of None, symmetric])
  have u: "sconst ?r = ?r ## ?r ## ?r ## ?r ## sconst ?r"
    using sconst_unfold[of ?r] by simp
  have b2: "bus_replies waking_world =
              [eio] @- ?r ## [] @- ?r ## [] @- ?r ## [] @- ?r ## sconst ?r"
    using u by (simp add: waking_world_def)
  have a: "acked ?r" by (simp add: acked_def reading_3700_def)
  have h2: "probe_replies waking_world =
              map (\<lambda>m. Some (ValueError m)) [?m] @- None ## sconst None
          \<and> length [?m] < 3
          \<and> bus_replies waking_world =
              [eio] @- ?r ## [] @- ?r ## [] @- ?r ## [] @- ?r ## sconst ?r
          \<and> length [eio] \<le> 9 \<and> length ([] :: reply list) \<le> 9
          \<and> length ([] :: reply list) \<le> 9 \<and> length ([] :: reply list) \<le> 9
          \<and> (\<forall>r\<in>set ([eio] @ [] @ [] @ []). write_fails r)
          \<and> acked ?r \<and> acked ?r \<and> acked ?r \<and> acked ?r"
    using p2 b2 a by (simp add: write_fails_eio)
  have c1: "init 0x0B absent_world =
              (Inl (ValueError ?m),
               absent_world\<lparr>probe_replies := sconst None,
                 log := log absent_world @
                   [Probe 0x0B, Sleep, Probe 0x0B, Sleep, Probe 0x0B, Sleep]\<rparr>)"
    using construction_sequence[where w = absent_world and address = "0x0B"
        and ?m1.0 = ?m and ?m2.0 = ?m and ?m3.0 = ?m and ps = "sconst None"] p1
    by blast
  have c2: "init 0x0B waking_world =
        (Inr \<lparr>i2c_device = 0x0B, buf = [0x16, 0x07, 0x55, 0xAA, 0x17, 0, 0, 0, 0, 0]\<rparr>,
         waking_world\<lparr>probe_replies := sconst None, bus_replies := sconst ?r,
           log := log waking_world @ concat (replicate (length [?m]) [Probe 0x0B, Sleep])
             @ [Probe 0x0B]
             @ replicate (Suc (length [eio])) (Write 0x0B [0x15, 0x01, 0x00, 0x64])
             @ replicate (Suc (length ([] :: reply list))) (Write 0x0B [0x0B, 0x10, 0x00, 0xA8])
             @ replicate (Suc (length ([] :: reply list))) (Write 0x0B [0x12, 0x01, 0x00, 0x72])
             @ [Sleep]
             @ replicate (Suc (length ([] :: reply list))) (Write 0x0B [0x07, 0x55, 0xAA, 0x17])
             @ [Sleep]\<rparr>)"
    using construction_sequence[where w = waking_world and address = "0x0B"
        and ms = "[?m]" and ps = "sconst None" and ?f1.0 = "[eio]" and ?f2.0 = "[]"
        and ?f3.0 = "[]" and ?f4.0 = "[]" and ?a1.0 = ?r and ?a2.0 = ?r and ?a3.0 = ?r
        and ?a4.0 = ?r and rest = "sconst ?r"] h2
    by blast
  show ?thesis
    unfolding c1 c2 by (simp add: absent_world_def waking_world_def)
qed

text \<open>
  Claim C10.  A write sends the bytes \<open>data & 0xFF\<close> and \<open>(data >> 8) & 0xFF\<close> of any
  integer \<open>data\<close>, at every attempt, so the 16-bit value on the wire is \<open>data\<close> modulo
  65536.  The setters of the thermistor B-constant and of the low voltage alarm pass
  their argument to the write unchecked; on a bus that acknowledges they succeed for
  every integer.
\<close>

theorem write_word_reduces_modulo_65536:
  assumes "length (buf self) = 10"
  shows "(\<exists>k. 1 \<le> k \<and> k \<le> 10 \<and>
            log (snd (snd (write_word self cmd data w))) =
              log w @ replicate k
                (Write (i2c_device self)
                   [cmd, word_of_int (data AND 0xFF), word_of_int (drop_bit 8 data AND 0xFF),
                    word_of_int (generate_crc
                      [0x16, cmd, word_of_int (data AND 0xFF),
                       word_of_int (drop_bit 8 data AND 0xFF)])]))
       \<and> uint (word_of_int (data AND 0xFF) :: byte)
           + 256 * uint (word_of_int (drop_bit 8 data AND 0xFF) :: byte) = data mod 65536
       \<and> set_thermistor_bconstant self data w = write_word self 0x06 data w
       \<and> set_low_voltage_alarm self data w = write_word self 0x14 data w
       \<and> (acked (shd (bus_replies w)) \<longrightarrow>
            fst (set_thermistor_bconstant self data w) = Inr () \<and>
            fst (set_low_voltage_alarm self data w) = Inr ())"
proof -
  let ?t = "self\<lparr>buf := write_frame cmd data @ drop 5 (buf self)\<rparr>"
  have l10: "length [0..<10::nat] = 10" and ne: "[0..<10::nat] \<noteq> []" by simp_all
  have dt: "i2c_device ?t = i2c_device self" by simp
  have t: "take 4 (drop 1 (buf ?t)) = tl (write_frame cmd data)"
    by (simp add: write_frame_def)
  obtain j where j: "j \<le> length [0..<10::nat]" "[0..<10::nat] = [] \<or> 1 \<le> j"
    "snd (snd (write_retry [0..<10] ?t w)) =
       after_transfers j (Write (i2c_device self) (tl (write_frame cmd data))) w"
    using write_retry_bound[OF t, of "[0..<10]" w] unfolding dt by blast
  have a: "\<exists>k. 1 \<le> k \<and> k \<le> 10 \<and>
            log (snd (snd (write_word self cmd data w))) =
              log w @ replicate k (Write (i2c_device self) (tl (write_frame cmd data)))"
    using j ne unfolding l10 write_word_unfold[OF assms]
    by (intro exI[of _ j]) (simp add: after_transfers_def)
  have s: "set_thermistor_bconstant self data w = write_word self 0x06 data w"
    "set_low_voltage_alarm self data w = write_word self 0x14 data w"
    by (simp_all add: set_thermistor_bconstant_def set_low_voltage_alarm_def
          LC709203F_CMD_THERMISTORB_def LC709203F_CMD_ALARMVOLTAGE_def)
  have k: "acked (shd (bus_replies w)) \<longrightarrow>
            fst (set_thermistor_bconstant self data w) = Inr () \<and>
            fst (set_low_voltage_alarm self data w) = Inr ()"
    using write_word_first_ack[OF assms] s by simp
  show ?thesis
    using a s k bytes_mod[of data] unfolding write_frame_def by simp
qed

theorem write_word_reduces_modulo_65536_witness:
  "fst (set_thermistor_bconstant dev0 70000 (bus_world (sconst reading_3700))) = Inr ()
 \<and> log (snd (snd (set_thermistor_bconstant dev0 70000 (bus_world (sconst reading_3700))))) =
     [Write 0x0B [0x06, 0x70, 0x11, 0xBB]]
 \<and> fst (set_low_voltage_alarm dev0 70000 (bus_world (sconst reading_3700))) = Inr ()
 \<and> log (snd (snd (set_low_voltage_alarm dev0 70000 (bus_world (sconst reading_3700))))) =
     [Write 0x0B [0x14, 0x70, 0x11, 0xCF]]
 \<and> uint (0x70 :: byte) + 256 * uint (0x11 :: byte) = 70000 mod 65536"
proof -
  let ?w = "bus_world (sconst reading_3700)"
  have a: "acked (shd (bus_replies ?w))"
    by (simp add: bus_world_def acked_def reading_3700_def)
  have lo: "word_of_int (70000 AND 0xFF) = (0x70 :: byte)"
    and hi: "word_of_int (drop_bit 8 70000 AND 0xFF) = (0x11 :: byte)"
    by simp_all
  have f1: "write_frame 0x06 70000 = [0x16, 0x06, 0x70, 0x11, 0xBB]"
    unfolding write_frame_def lo hi crc_bconstant_70000 by simp
  have f2: "write_frame 0x14 70000 = [0x16, 0x14, 0x70, 0x11, 0xCF]"
    unfolding write_frame_def lo hi crc_alarm_70000 by simp
  have l: "log ?w = []" by (simp add: bus_world_def)
  note t = write_word_reduces_modulo_65536[OF dev0_length, where data = 70000 and w = ?w]
  show ?thesis
    using t[where cmd = "0x06"] a
      write_word_first_ack[OF dev0_length a, of "0x06" 70000]
      write_word_first_ack[OF dev0_length a, of "0x14" 70000]
    unfolding f1 f2
    by (simp add: dev0_device l)
qed

end
